theory Spec2Isabelle
  imports Main
begin

section \<open>Python values and strings\<close>

text \<open>
  The applicant record is what \<^verbatim>\<open>json.load\<close> returns (or a dict handed to the API):
  \<^verbatim>\<open>None\<close>, booleans, integers, floats, strings, lists and dicts. A dict is an association
  list read with \<open>map_of\<close>. A float is kept abstractly, as its truth value (False for
  \<^verbatim>\<open>0.0\<close>) and the text \<^verbatim>\<open>str()\<close> gives for it: the program does no arithmetic.

  A Python \<^verbatim>\<open>str\<close> is a \<open>string\<close>, the UTF-8 bytes of the text. \<open>strip\<close> removes the 29
  characters Python counts as white space, each recognised by its UTF-8 bytes. \<open>lower\<close> is
  computed for ASCII text and taken from the world for any other text. \<open>upper\<close> maps the
  ASCII letters; the program only compares its result with \<^verbatim>\<open>"N/A"\<close>, and no text with a
  character outside ASCII is uppercased to that by Python, so the comparison is exact.
\<close>

datatype json =
    JNull
  | JBool bool
  | JInt int
  | JFloat bool string
  | JStr string
  | JList "json list"
  | JDict "(string \<times> json) list"

type_synonym pydict = "(string \<times> json) list"

datatype error = AttributeError | TypeError | KeyError | External string

text \<open>Python truthiness, as \<^verbatim>\<open>if value\<close> and \<^verbatim>\<open>not text\<close> test it.\<close>

fun truthy :: "json \<Rightarrow> bool" where
  "truthy JNull = False"
| "truthy (JBool b) = b"
| "truthy (JInt i) = (i \<noteq> 0)"
| "truthy (JFloat t s) = t"
| "truthy (JStr s) = (s \<noteq> [])"
| "truthy (JList xs) = (xs \<noteq> [])"
| "truthy (JDict kvs) = (kvs \<noteq> [])"

definition lower_char :: "char \<Rightarrow> char" where
  "lower_char c =
     (case map_of (zip ''ABCDEFGHIJKLMNOPQRSTUVWXYZ'' ''abcdefghijklmnopqrstuvwxyz'') c of
        Some d \<Rightarrow> d
      | None \<Rightarrow> c)"

definition upper_char :: "char \<Rightarrow> char" where
  "upper_char c =
     (case map_of (zip ''abcdefghijklmnopqrstuvwxyz'' ''ABCDEFGHIJKLMNOPQRSTUVWXYZ'') c of
        Some d \<Rightarrow> d
      | None \<Rightarrow> c)"

definition upper :: "string \<Rightarrow> string" where
  "upper s = map upper_char s"

text \<open>
  The white space of \<^verbatim>\<open>str.strip()\<close>: U+0009 to U+000D, U+001C to U+0020, U+0085, U+00A0,
  U+1680, U+2000 to U+200A, U+2028, U+2029, U+202F, U+205F and U+3000, in UTF-8.
\<close>

definition whitespace :: "string list" where
  "whitespace =
     [[CHR 0x09], [CHR 0x0A], [CHR 0x0B], [CHR 0x0C], [CHR 0x0D],
      [CHR 0x1C], [CHR 0x1D], [CHR 0x1E], [CHR 0x1F], [CHR 0x20],
      [CHR 0xC2, CHR 0x85], [CHR 0xC2, CHR 0xA0], [CHR 0xE1, CHR 0x9A, CHR 0x80],
      [CHR 0xE2, CHR 0x80, CHR 0x80], [CHR 0xE2, CHR 0x80, CHR 0x81], [CHR 0xE2, CHR 0x80, CHR 0x82],
      [CHR 0xE2, CHR 0x80, CHR 0x83], [CHR 0xE2, CHR 0x80, CHR 0x84], [CHR 0xE2, CHR 0x80, CHR 0x85],
      [CHR 0xE2, CHR 0x80, CHR 0x86], [CHR 0xE2, CHR 0x80, CHR 0x87], [CHR 0xE2, CHR 0x80, CHR 0x88],
      [CHR 0xE2, CHR 0x80, CHR 0x89], [CHR 0xE2, CHR 0x80, CHR 0x8A],
      [CHR 0xE2, CHR 0x80, CHR 0xA8], [CHR 0xE2, CHR 0x80, CHR 0xA9], [CHR 0xE2, CHR 0x80, CHR 0xAF],
      [CHR 0xE2, CHR 0x81, CHR 0x9F], [CHR 0xE3, CHR 0x80, CHR 0x80]]"

text \<open>The text after one leading token, when the text begins with one of the tokens.\<close>

definition after_token :: "string list \<Rightarrow> string \<Rightarrow> string option" where
  "after_token tokens s =
     (case find (\<lambda>t. t \<noteq> [] \<and> take (length t) s = t) tokens of
        None \<Rightarrow> None
      | Some t \<Rightarrow> Some (drop (length t) s))"

function strip_leading :: "string list \<Rightarrow> string \<Rightarrow> string" where
  "strip_leading tokens s =
     (case after_token tokens s of
        None \<Rightarrow> s
      | Some rest \<Rightarrow> strip_leading tokens rest)"
  by pat_completeness auto
termination
proof (relation "measure (\<lambda>(tokens, s). length s)")
  show "wf (measure (\<lambda>(tokens :: string list, s :: string). length s))"
    by simp
next
  fix tokens :: "string list" and s rest :: string
  assume "after_token tokens s = Some rest"
  then obtain t where f: "find (\<lambda>t. t \<noteq> [] \<and> take (length t) s = t) tokens = Some t"
      and rest: "rest = drop (length t) s"
    by (auto simp: after_token_def split: option.splits)
  from f have t: "t \<noteq> []" "take (length t) s = t"
    by (auto simp: find_Some_iff)
  from t(2) have "length t \<le> length s"
    by (metis length_take min.cobounded1)
  moreover from t(1) have "0 < length t"
    by simp
  moreover from rest have "length rest = length s - length t"
    by simp
  ultimately have "length rest < length s"
    by linarith
  then show "((tokens, rest), (tokens, s)) \<in> measure (\<lambda>(tokens, s). length s)"
    by simp
qed

declare strip_leading.simps [simp del]

text \<open>\<^verbatim>\<open>text.strip()\<close>: white space is removed at the front, then at the back.\<close>

definition strip :: "string \<Rightarrow> string" where
  "strip s = rev (strip_leading (map rev whitespace) (rev (strip_leading whitespace s)))"

definition is_ascii :: "char \<Rightarrow> bool" where
  "is_ascii c \<longleftrightarrow> \<not> digit7 c"

text \<open>\<^verbatim>\<open>path.split(".")\<close>: an empty path gives one empty key, two dots in a row an empty key
  between them.\<close>

fun split_dot :: "string \<Rightarrow> string list" where
  "split_dot [] = [[]]"
| "split_dot (c # cs) =
     (if c = CHR ''.'' then [] # split_dot cs
      else (case split_dot cs of w # ws \<Rightarrow> (c # w) # ws | [] \<Rightarrow> [[c]]))"

text \<open>\<^verbatim>\<open>sep.join(parts)\<close>.\<close>

fun join :: "string \<Rightarrow> string list \<Rightarrow> string" where
  "join sep [] = []"
| "join sep [x] = x"
| "join sep (x # y # ys) = x @ sep @ join sep (y # ys)"

text \<open>\<^verbatim>\<open>str(n)\<close> for an integer.\<close>

fun str_nat :: "nat \<Rightarrow> string" where
  "str_nat n =
     (if n < 10 then [''0123456789'' ! n]
      else str_nat (n div 10) @ [''0123456789'' ! (n mod 10)])"

definition str_int :: "int \<Rightarrow> string" where
  "str_int i = (if i < 0 then CHR ''-'' # str_nat (nat (- i)) else str_nat (nat i))"

section \<open>get_nested_value and extract_full_name\<close>

text \<open>
  \<^verbatim>\<open>value.get(key, default)\<close>: only a dict has \<^verbatim>\<open>get\<close>; on any other value the attribute
  lookup raises.
\<close>

definition dict_get :: "json \<Rightarrow> string \<Rightarrow> json \<Rightarrow> error + json" where
  "dict_get v key dflt =
     (case v of
        JDict kvs \<Rightarrow> Inr (case map_of kvs key of Some x \<Rightarrow> x | None \<Rightarrow> dflt)
      | _ \<Rightarrow> Inl AttributeError)"

text \<open>The loop of \<^verbatim>\<open>get_nested_value\<close>; \<^verbatim>\<open>return None\<close> is \<open>JNull\<close>.\<close>

fun nested_loop :: "json \<Rightarrow> string list \<Rightarrow> json" where
  "nested_loop v [] = v"
| "nested_loop v (key # keys) =
     (case v of
        JDict kvs \<Rightarrow> (case map_of kvs key of Some x \<Rightarrow> nested_loop x keys | None \<Rightarrow> JNull)
      | _ \<Rightarrow> JNull)"

definition get_nested_value :: "pydict \<Rightarrow> string \<Rightarrow> json" where
  "get_nested_value data path = nested_loop (JDict data) (split_dot path)"

text \<open>
  \<^verbatim>\<open>part.upper()\<close> exists on a string only; the test \<^verbatim>\<open>if part and ...\<close> reaches it for a
  truthy part.
\<close>

fun name_parts_loop :: "json list \<Rightarrow> string list \<Rightarrow> error + string list" where
  "name_parts_loop [] name_parts = Inr name_parts"
| "name_parts_loop (part # rest) name_parts =
     (if truthy part then
        (case part of
           JStr s \<Rightarrow>
             if upper s \<noteq> ''N/A'' then name_parts_loop rest (name_parts @ [s])
             else name_parts_loop rest name_parts
         | _ \<Rightarrow> Inl AttributeError)
      else name_parts_loop rest name_parts)"

definition extract_full_name :: "pydict \<Rightarrow> error + string" where
  "extract_full_name data =
     (case dict_get (JDict data) ''personal_info'' (JDict []) of
        Inl e \<Rightarrow> Inl e
      | Inr personal \<Rightarrow>
          (case dict_get personal ''first_name'' (JStr []) of
             Inl e \<Rightarrow> Inl e
           | Inr first_name \<Rightarrow>
               (case dict_get personal ''middle_name'' (JStr []) of
                  Inl e \<Rightarrow> Inl e
                | Inr middle_name \<Rightarrow>
                    (case dict_get personal ''last_name'' (JStr []) of
                       Inl e \<Rightarrow> Inl e
                     | Inr last_name \<Rightarrow>
                         (case name_parts_loop [first_name, middle_name, last_name] [] of
                            Inl e \<Rightarrow> Inl e
                          | Inr name_parts \<Rightarrow> Inr (join '' '' name_parts))))))"

section \<open>Configuration: field_config.py\<close>

definition FONT_NAME :: string where
  "FONT_NAME = ''helv''"

definition FONT_SIZE :: int where
  "FONT_SIZE = 9"

definition CHECKBOX_CHAR :: string where
  "CHECKBOX_CHAR = ''X''"

definition CHECKBOX_FONT_SIZE :: int where
  "CHECKBOX_FONT_SIZE = 10"

type_synonym coord_table = "(string \<times> int \<times> int) list"

text \<open>The three tables, in the order of the source; a lookup is \<open>map_of\<close>.\<close>

definition FIELD_COORDINATES :: "(string \<times> int \<times> int) list" where
  "FIELD_COORDINATES =
     [(''first_name'', 67, 154),
      (''middle_name'', 198, 154),
      (''last_name'', 323, 154),
      (''place_of_birth'', 72, 178),
      (''dob'', 198, 188),
      (''mobile'', 328, 178),
      (''present_nationality'', 72, 210),
      (''nationality_of_origin'', 198, 210),
      (''email'', 328, 210),
      (''passport_number'', 72, 238),
      (''issuing_country'', 198, 238),
      (''passport_expiry'', 328, 248),
      (''uae_address'', 72, 270),
      (''checkbox_female'', 380, 259),
      (''checkbox_male'', 415, 259),
      (''home_phone'', 459, 270),
      (''visa_refusal_details'', 72, 307),
      (''job_title'', 328, 298),
      (''uae_residency_expiry'', 328, 323),
      (''checkbox_single'', 364, 347),
      (''checkbox_married'', 357, 366),
      (''checkbox_divorced'', 435, 348),
      (''checkbox_widowed'', 433, 366),
      (''lebanon_previous_visits'', 72, 402),
      (''trip_start_date'', 328, 393),
      (''trip_end_date'', 420, 393),
      (''criminal_record_details'', 72, 460),
      (''checkbox_business'', 339, 415),
      (''checkbox_education'', 339, 424),
      (''checkbox_tourism'', 337, 433),
      (''checkbox_family_visit'', 337, 443),
      (''checkbox_official'', 337, 452),
      (''checkbox_other_purpose'', 337, 460),
      (''other_purpose_text'', 430, 460),
      (''contact_person'', 72, 482),
      (''lebanon_address'', 72, 507),
      (''arrival_date'', 72, 544),
      (''departure_date'', 328, 544),
      (''checkbox_single_entry'', 68, 577),
      (''checkbox_two_entry'', 68, 599),
      (''checkbox_multiple_entry'', 68, 620),
      (''checkbox_15_days'', 272, 575),
      (''checkbox_one_month'', 354, 575),
      (''checkbox_three_months'', 271, 584),
      (''checkbox_six_months'', 353, 583),
      (''signature_date'', 295, 644),
      (''accompanied_by_arabic'', 450, 750)]"

definition CHECKBOX_MAPPINGS :: "(string \<times> (string \<times> string) list) list" where
  "CHECKBOX_MAPPINGS =
     [(''sex'',
        [(''female'', ''checkbox_female''),
         (''male'', ''checkbox_male''),
         (''f'', ''checkbox_female''),
         (''m'', ''checkbox_male'')]),
      (''marital_status'',
        [(''single'', ''checkbox_single''),
         (''married'', ''checkbox_married''),
         (''divorced'', ''checkbox_divorced''),
         (''widowed'', ''checkbox_widowed'')]),
      (''purpose_of_trip'',
        [(''business'', ''checkbox_business''),
         (''education'', ''checkbox_education''),
         (''tourism'', ''checkbox_tourism''),
         (''family_visit'', ''checkbox_family_visit''),
         (''family visit'', ''checkbox_family_visit''),
         (''official'', ''checkbox_official''),
         (''other'', ''checkbox_other_purpose'')]),
      (''visa_type'',
        [(''single_entry'', ''checkbox_single_entry''),
         (''single'', ''checkbox_single_entry''),
         (''two_entry'', ''checkbox_two_entry''),
         (''double'', ''checkbox_two_entry''),
         (''multiple_entry'', ''checkbox_multiple_entry''),
         (''multiple'', ''checkbox_multiple_entry'')]),
      (''visa_duration'',
        [(''15_days'', ''checkbox_15_days''),
         (''15 days'', ''checkbox_15_days''),
         (''one_month'', ''checkbox_one_month''),
         (''1_month'', ''checkbox_one_month''),
         (''1 month'', ''checkbox_one_month''),
         (''three_months'', ''checkbox_three_months''),
         (''3_months'', ''checkbox_three_months''),
         (''3 months'', ''checkbox_three_months''),
         (''six_months'', ''checkbox_six_months''),
         (''6_months'', ''checkbox_six_months''),
         (''6 months'', ''checkbox_six_months'')])]"

definition TEXT_FIELD_MAPPINGS :: "(string \<times> string) list" where
  "TEXT_FIELD_MAPPINGS =
     [(''personal_info.first_name'', ''first_name''),
      (''personal_info.middle_name'', ''middle_name''),
      (''personal_info.last_name'', ''last_name''),
      (''personal_info.place_of_birth'', ''place_of_birth''),
      (''personal_info.date_of_birth'', ''dob''),
      (''personal_info.mobile'', ''mobile''),
      (''personal_info.present_nationality'', ''present_nationality''),
      (''personal_info.nationality_of_origin'', ''nationality_of_origin''),
      (''passport_info.passport_number'', ''passport_number''),
      (''passport_info.issuing_country'', ''issuing_country''),
      (''passport_info.expiry_date'', ''passport_expiry''),
      (''residence_info.uae_address'', ''uae_address''),
      (''residence_info.uae_residency_expiry'', ''uae_residency_expiry''),
      (''travel_history.visa_refusal_details'', ''visa_refusal_details''),
      (''travel_history.lebanon_previous_visits'', ''lebanon_previous_visits''),
      (''travel_history.criminal_record_details'', ''criminal_record_details''),
      (''trip_info.start_date'', ''trip_start_date''),
      (''trip_info.end_date'', ''trip_end_date''),
      (''trip_info.other_purpose'', ''other_purpose_text''),
      (''trip_info.arrival_date'', ''arrival_date''),
      (''trip_info.departure_date'', ''departure_date''),
      (''accommodation_info.contact_person'', ''contact_person''),
      (''accommodation_info.lebanon_address'', ''lebanon_address''),
      (''signature_date'', ''signature_date''),
      (''accompanied_by_arabic'', ''accompanied_by_arabic'')]"

text \<open>The prefix literal: seven Arabic presentation forms and two spaces, in UTF-8.\<close>

definition ARABIC_ACCOMPANIED_BY_PREFIX :: string where
  "ARABIC_ACCOMPANIED_BY_PREFIX =
     [CHR 0xEF, CHR 0xBA, CHR 0x91, CHR 0xEF, CHR 0xBB, CHR 0xA4, CHR 0xEF, CHR 0xBA, CHR 0xAE,
      CHR 0xD8, CHR 0xA7, CHR 0xEF, CHR 0xBB, CHR 0x93, CHR 0xEF, CHR 0xBB, CHR 0x98,
      CHR 0xEF, CHR 0xBA, CHR 0x94, CHR 0x20, CHR 0x20]"

section \<open>The page and the world around the program\<close>

text \<open>
  The page is written, never read: it is the trace of the calls made to the PDF library on
  it, in order, each marked with whether the call returned (\<open>Drawn\<close>) or raised (\<open>Failed\<close>).
  What ends up on the page are the \<open>Drawn\<close> operations, later ones on top.
\<close>

datatype font_config = FontFile string string | Builtin string

type_synonym colour = "int \<times> int \<times> int"

datatype draw_op =
    InsertText int int string font_config int colour
  | DrawRect int int int int colour colour

datatype event = Drawn draw_op | Failed draw_op

type_synonym page = "event list"

datatype outcome = Done page | Raised error page

text \<open>
  What the program does not decide is a parameter: which optional libraries were imported,
  what the translator and the reshaper answer, which library calls raise, the text of
  \<^verbatim>\<open>str()\<close> on a list or dict, and \<^verbatim>\<open>str.lower()\<close> on a text with characters outside ASCII.
  Console output is not modelled.

  \<open>VISA_TYPE_LABELS\<close> and \<open>BOTTOM_LABEL_FONT_SIZE\<close> are imported from field_config.py, but the
  file defines neither: they are parameters too.
\<close>

record env =
  ARABIC_SUPPORT :: bool
  TRANSLATION_SUPPORT :: bool
  translate :: "string \<Rightarrow> error + string"
  reshape :: "string \<Rightarrow> string"
  get_display :: "string \<Rightarrow> string"
  draw_error :: "draw_op \<Rightarrow> error option"
  py_repr :: "json \<Rightarrow> string"
  unicode_lower :: "string \<Rightarrow> string"
  VISA_TYPE_LABELS :: "(string \<times> string) list"
  BOTTOM_LABEL_FONT_SIZE :: int

definition overlay :: "outcome \<Rightarrow> page" where
  "overlay r = (case r of Done p \<Rightarrow> p | Raised e p \<Rightarrow> p)"

definition drawn :: "page \<Rightarrow> draw_op list" where
  "drawn p = concat (map (\<lambda>ev. case ev of Drawn op \<Rightarrow> [op] | Failed op \<Rightarrow> []) p)"

text \<open>One statement after another: an exception ends the function.\<close>

definition and_then :: "outcome \<Rightarrow> (page \<Rightarrow> outcome) \<Rightarrow> outcome" where
  "and_then r f = (case r of Done p \<Rightarrow> f p | Raised e p \<Rightarrow> Raised e p)"

definition try_val :: "error + 'a \<Rightarrow> page \<Rightarrow> ('a \<Rightarrow> outcome) \<Rightarrow> outcome" where
  "try_val r page f = (case r of Inl e \<Rightarrow> Raised e page | Inr v \<Rightarrow> f v)"

text \<open>A call of \<^verbatim>\<open>page.insert_text\<close> or \<^verbatim>\<open>page.draw_rect\<close>.\<close>

definition page_call :: "env \<Rightarrow> page \<Rightarrow> draw_op \<Rightarrow> outcome" where
  "page_call env page op =
     (case draw_error env op of
        None \<Rightarrow> Done (page @ [Drawn op])
      | Some e \<Rightarrow> Raised e (page @ [Failed op]))"

text \<open>\<^verbatim>\<open>if key in FIELD_COORDINATES: x, y = FIELD_COORDINATES[key]; ...\<close>\<close>

definition at_field :: "coord_table \<Rightarrow> string \<Rightarrow> page \<Rightarrow> (int \<Rightarrow> int \<Rightarrow> outcome) \<Rightarrow> outcome" where
  "at_field coords key page f = (case map_of coords key of None \<Rightarrow> Done page | Some (x, y) \<Rightarrow> f x y)"

text \<open>\<^verbatim>\<open>table[key]\<close> on a dict.\<close>

definition subscript :: "(string \<times> 'a) list \<Rightarrow> string \<Rightarrow> error + 'a" where
  "subscript table key = (case map_of table key of None \<Rightarrow> Inl KeyError | Some v \<Rightarrow> Inr v)"

text \<open>\<^verbatim>\<open>value.lower()\<close> and \<^verbatim>\<open>prefix + value\<close>: a value that is not a string raises.\<close>

definition lower :: "env \<Rightarrow> string \<Rightarrow> string" where
  "lower env s = (if list_all is_ascii s then map lower_char s else unicode_lower env s)"

definition str_lower :: "env \<Rightarrow> json \<Rightarrow> error + string" where
  "str_lower env v = (case v of JStr s \<Rightarrow> Inr (lower env s) | _ \<Rightarrow> Inl AttributeError)"

definition str_concat :: "string \<Rightarrow> json \<Rightarrow> error + string" where
  "str_concat prefix v = (case v of JStr s \<Rightarrow> Inr (prefix @ s) | _ \<Rightarrow> Inl TypeError)"

text \<open>\<^verbatim>\<open>str(value)\<close>.\<close>

fun py_str :: "env \<Rightarrow> json \<Rightarrow> string" where
  "py_str env (JStr s) = s"
| "py_str env (JInt i) = str_int i"
| "py_str env (JBool b) = (if b then ''True'' else ''False'')"
| "py_str env JNull = ''None''"
| "py_str env (JFloat t s) = s"
| "py_str env (JList xs) = py_repr env (JList xs)"
| "py_str env (JDict kvs) = py_repr env (JDict kvs)"

section \<open>Drawing: insert_text, insert_checkbox, redaction\<close>

definition insert_text :: "env \<Rightarrow> page \<Rightarrow> int \<Rightarrow> int \<Rightarrow> string \<Rightarrow> int \<Rightarrow> outcome" where
  "insert_text env page x y text fontsize =
     (if text \<noteq> [] \<and> strip text \<noteq> [] then
        page_call env page (InsertText x y text (Builtin FONT_NAME) fontsize (0, 0, 0))
      else Done page)"

definition insert_checkbox :: "env \<Rightarrow> page \<Rightarrow> int \<Rightarrow> int \<Rightarrow> outcome" where
  "insert_checkbox env page x y =
     page_call env page (InsertText x y CHECKBOX_CHAR (Builtin FONT_NAME) CHECKBOX_FONT_SIZE (0, 0, 0))"

definition redact_area :: "env \<Rightarrow> page \<Rightarrow> int \<Rightarrow> int \<Rightarrow> int \<Rightarrow> int \<Rightarrow> outcome" where
  "redact_area env page x y width height =
     page_call env page (DrawRect x y (x + width) (y + height) (1, 1, 1) (1, 1, 1))"

definition redact_existing_dates :: "env \<Rightarrow> page \<Rightarrow> outcome" where
  "redact_existing_dates env page = redact_area env page 328 382 215 12"

section \<open>fill_checkboxes\<close>

text \<open>
  The functions that read the global \<open>FIELD_COORDINATES\<close> take the table as their first
  argument; the entry points below pass the table of the source.
\<close>

definition fill_checkboxes :: "coord_table \<Rightarrow> env \<Rightarrow> page \<Rightarrow> pydict \<Rightarrow> outcome" where
  "fill_checkboxes coords env page data =
     try_val (dict_get (JDict data) ''visa_info'' (JDict [])) page (\<lambda>visa.
     try_val (dict_get visa ''type'' (JStr [])) page (\<lambda>t.
     try_val (str_lower env t) page (\<lambda>visa_type.
     try_val (subscript CHECKBOX_MAPPINGS ''visa_type'') page (\<lambda>type_boxes.
     and_then
       (case map_of type_boxes visa_type of
          None \<Rightarrow> Done page
        | Some checkbox_key \<Rightarrow> at_field coords checkbox_key page (insert_checkbox env page))
       (\<lambda>page.
          let visa_duration =
                (if visa_type \<in> set [''multiple_entry'', ''multiple''] then ''six_months''
                 else ''three_months'')
          in try_val (subscript CHECKBOX_MAPPINGS ''visa_duration'') page (\<lambda>duration_boxes.
               case map_of duration_boxes visa_duration of
                 None \<Rightarrow> Done page
               | Some checkbox_key \<Rightarrow> at_field coords checkbox_key page (insert_checkbox env page)))))))"

section \<open>Translation and Arabic text\<close>

definition translate_to_arabic :: "env \<Rightarrow> json \<Rightarrow> error + json" where
  "translate_to_arabic env text =
     (if \<not> TRANSLATION_SUPPORT env then Inr text
      else if \<not> truthy text then Inr text
      else (case text of
              JStr s \<Rightarrow>
                if strip s = [] then Inr text
                else (case translate env s of
                        Inr translated \<Rightarrow> Inr (JStr translated)
                      | Inl e \<Rightarrow> Inr text)
            | _ \<Rightarrow> Inl AttributeError))"

definition reshape_arabic_text :: "env \<Rightarrow> string \<Rightarrow> string" where
  "reshape_arabic_text env text =
     (if ARABIC_SUPPORT env then get_display env (reshape env text) else text)"

definition font_attempts :: "font_config list" where
  "font_attempts =
     [FontFile ''/System/Library/Fonts/GeezaPro.ttc'' ''GeezaPro'',
      FontFile ''/System/Library/Fonts/SFArabic.ttf'' ''SFArabic'',
      FontFile ''/usr/share/fonts/truetype/dejavu/DejaVuSans.ttf'' ''DejaVuSans'',
      FontFile ''/usr/share/fonts/truetype/liberation/LiberationSans-Regular.ttf'' ''LiberationSans'',
      FontFile ''/usr/share/fonts/truetype/noto/NotoSansArabic-Regular.ttf'' ''NotoSansArabic'',
      FontFile ''/usr/share/fonts/truetype/freefont/FreeSans.ttf'' ''FreeSans'',
      Builtin ''figo'']"

text \<open>
  The \<^verbatim>\<open>for\<close> loop over the candidates: the result is \<^verbatim>\<open>text_inserted\<close> and the page.
  \<^verbatim>\<open>except Exception\<close> swallows the error and goes on to the next candidate.
\<close>

fun try_fonts :: "env \<Rightarrow> page \<Rightarrow> (font_config \<Rightarrow> draw_op) \<Rightarrow> font_config list \<Rightarrow> bool \<times> page" where
  "try_fonts env page mk [] = (False, page)"
| "try_fonts env page mk (font_config # rest) =
     (case page_call env page (mk font_config) of
        Done page' \<Rightarrow> (True, page')
      | Raised e page' \<Rightarrow> try_fonts env page' mk rest)"

definition insert_arabic_text :: "env \<Rightarrow> page \<Rightarrow> int \<Rightarrow> int \<Rightarrow> string \<Rightarrow> int \<Rightarrow> outcome" where
  "insert_arabic_text env page x y text fontsize =
     (if text \<noteq> [] \<and> strip text \<noteq> [] then
        let display_text = reshape_arabic_text env text;
            (text_inserted, page') =
               try_fonts env page (\<lambda>fc. InsertText x y display_text fc fontsize (0, 0, 0)) font_attempts
        in if \<not> text_inserted then
             (case page_call env page' (InsertText x y display_text (Builtin ''helv'') fontsize (0, 0, 0)) of
                Done page'' \<Rightarrow> Done page''
              | Raised e page'' \<Rightarrow> Done page'')
           else Done page'
      else Done page)"

section \<open>fill_text_fields\<close>

definition fill_mapped_field :: "coord_table \<Rightarrow> env \<Rightarrow> pydict \<Rightarrow> page \<Rightarrow> string \<times> string \<Rightarrow> outcome" where
  "fill_mapped_field coords env data page m =
     (case m of (json_path, coord_key) \<Rightarrow>
        let v = get_nested_value data json_path
        in if truthy v then
             at_field coords coord_key page (\<lambda>x y. insert_text env page x y (py_str env v) FONT_SIZE)
           else Done page)"

fun text_fields_loop :: "coord_table \<Rightarrow> env \<Rightarrow> pydict \<Rightarrow> (string \<times> string) list \<Rightarrow> page \<Rightarrow> outcome" where
  "text_fields_loop coords env data [] page = Done page"
| "text_fields_loop coords env data (m # ms) page =
     and_then (fill_mapped_field coords env data page m) (text_fields_loop coords env data ms)"

text \<open>One source value written to two fields.\<close>

definition fill_two_fields :: "coord_table \<Rightarrow> env \<Rightarrow> pydict \<Rightarrow> string \<Rightarrow> string \<Rightarrow> string \<Rightarrow> page \<Rightarrow> outcome" where
  "fill_two_fields coords env data json_path key1 key2 page =
     (let v = get_nested_value data json_path
      in if truthy v then
           and_then
             (at_field coords key1 page (\<lambda>x y. insert_text env page x y (py_str env v) FONT_SIZE))
             (\<lambda>page. at_field coords key2 page (\<lambda>x y. insert_text env page x y (py_str env v) FONT_SIZE))
         else Done page)"

definition fill_accompanied_by :: "coord_table \<Rightarrow> env \<Rightarrow> pydict \<Rightarrow> page \<Rightarrow> outcome" where
  "fill_accompanied_by coords env data page =
     (let accompany_name = get_nested_value data ''accompany_name''
      in if truthy accompany_name then
           (case map_of coords ''accompanied_by_arabic'' of
              None \<Rightarrow> Done page
            | Some (x, y) \<Rightarrow>
                try_val (translate_to_arabic env accompany_name) page (\<lambda>translated_name.
                try_val (str_concat ARABIC_ACCOMPANIED_BY_PREFIX translated_name) page (\<lambda>arabic_text.
                  insert_arabic_text env page x y arabic_text (BOTTOM_LABEL_FONT_SIZE env))))
         else Done page)"

definition fill_visa_type_label :: "coord_table \<Rightarrow> env \<Rightarrow> pydict \<Rightarrow> page \<Rightarrow> outcome" where
  "fill_visa_type_label coords env data page =
     (let visa_type = get_nested_value data ''visa_info.type''
      in if truthy visa_type then
           (case map_of coords ''visa_type_label'' of
              None \<Rightarrow> Done page
            | Some (x, y) \<Rightarrow>
                try_val (str_lower env visa_type) page (\<lambda>visa_type_lower.
                  case map_of (VISA_TYPE_LABELS env) visa_type_lower of
                    None \<Rightarrow> Done page
                  | Some label_text \<Rightarrow>
                      insert_text env page x y label_text (BOTTOM_LABEL_FONT_SIZE env)))
         else Done page)"

definition fill_text_fields :: "coord_table \<Rightarrow> env \<Rightarrow> page \<Rightarrow> pydict \<Rightarrow> outcome" where
  "fill_text_fields coords env page data =
     and_then (text_fields_loop coords env data TEXT_FIELD_MAPPINGS page) (\<lambda>page.
     and_then (fill_two_fields coords env data ''trip_info.departure_date_from_dubai''
                 ''trip_start_date'' ''arrival_date'' page) (\<lambda>page.
     and_then (fill_two_fields coords env data ''trip_info.arrival_date_to_dubai''
                 ''trip_end_date'' ''departure_date'' page) (\<lambda>page.
     and_then (fill_accompanied_by coords env data page)
       (fill_visa_type_label coords env data))))"

section \<open>The two entry points\<close>

text \<open>
  The overlay starts empty on the first page of the template. \<^verbatim>\<open>generate_filled_pdf_bytes\<close>
  returns the document and the full name; the document is the page as drawn. When a step
  raises, the result keeps the page as far as it got.
\<close>

definition draw_form :: "env \<Rightarrow> pydict \<Rightarrow> outcome" where
  "draw_form env data =
     and_then (redact_existing_dates env []) (\<lambda>page.
     and_then (fill_checkboxes FIELD_COORDINATES env page data) (\<lambda>page.
       fill_text_fields FIELD_COORDINATES env page data))"

definition generate_filled_pdf_bytes :: "env \<Rightarrow> pydict \<Rightarrow> (error \<times> page) + (page \<times> string)" where
  "generate_filled_pdf_bytes env data =
     (case draw_form env data of
        Raised e page \<Rightarrow> Inl (e, page)
      | Done page \<Rightarrow>
          (case extract_full_name data of
             Inl e \<Rightarrow> Inl (e, page)
           | Inr full_name \<Rightarrow> Inr (page, full_name)))"

definition fill_visa_form :: "env \<Rightarrow> pydict \<Rightarrow> outcome" where
  "fill_visa_form env data = draw_form env data"

section \<open>Notions of the specification and sample inputs\<close>

text \<open>
  The specification's condition for skipping a field: walking the path, some segment meets a
  value that is not a dictionary, or a dictionary without the key.
\<close>

fun traversal_fails :: "json \<Rightarrow> string list \<Rightarrow> bool" where
  "traversal_fails v [] = False"
| "traversal_fails v (key # keys) =
     (case v of
        JDict kvs \<Rightarrow> (case map_of kvs key of None \<Rightarrow> True | Some x \<Rightarrow> traversal_fails x keys)
      | _ \<Rightarrow> True)"

text \<open>
  A world in which neither optional library is installed and every library call returns.
  The label table and the bottom font size are sample values for the two constants the
  source does not define.
\<close>

definition plain_env :: env where
  "plain_env =
     \<lparr> ARABIC_SUPPORT = False, TRANSLATION_SUPPORT = False,
       translate = (\<lambda>s. Inl (External ''unavailable'')),
       reshape = (\<lambda>s. s), get_display = (\<lambda>s. s),
       draw_error = (\<lambda>op. None), py_repr = (\<lambda>v. ''[]''), unicode_lower = (\<lambda>s. s),
       VISA_TYPE_LABELS = [(''single_entry'', ''Single Entry''), (''multiple_entry'', ''Multiple Entry'')],
       BOTTOM_LABEL_FONT_SIZE = 7 \<rparr>"

text \<open>A library call raises when the world gives it an error.\<close>

definition call_raises :: "env \<Rightarrow> draw_op \<Rightarrow> bool" where
  "call_raises env op \<longleftrightarrow> draw_error env op \<noteq> None"

text \<open>
  The specification's fallback chain: the candidates are attempted in their order up to the
  first one that succeeds, which is drawn; when every candidate fails, all of them were
  attempted and one more attempt is made, with the final operation.
\<close>

definition fallback_chain :: "(draw_op \<Rightarrow> bool) \<Rightarrow> draw_op list \<Rightarrow> draw_op \<Rightarrow> event list" where
  "fallback_chain fails candidates final =
     (case dropWhile fails candidates of
        op # rest \<Rightarrow> map Failed (takeWhile fails candidates) @ [Drawn op]
      | [] \<Rightarrow> map Failed candidates @ [if fails final then Failed final else Drawn final])"

text \<open>The draw of a text through the Arabic path with one font.\<close>

definition arabic_op :: "env \<Rightarrow> int \<Rightarrow> int \<Rightarrow> string \<Rightarrow> int \<Rightarrow> font_config \<Rightarrow> draw_op" where
  "arabic_op env x y text fontsize fc =
     InsertText x y (reshape_arabic_text env text) fc fontsize (0, 0, 0)"

text \<open>A checkbox mark, and the marks the specification expects for a lowercased visa type.\<close>

definition checkbox_at :: "int \<Rightarrow> int \<Rightarrow> draw_op" where
  "checkbox_at x y = InsertText x y ''X'' (Builtin ''helv'') 10 (0, 0, 0)"

definition type_checkbox :: "string \<Rightarrow> draw_op list" where
  "type_checkbox t =
     (if t = ''single_entry'' \<or> t = ''single'' then [checkbox_at 68 577]
      else if t = ''two_entry'' \<or> t = ''double'' then [checkbox_at 68 599]
      else if t = ''multiple_entry'' \<or> t = ''multiple'' then [checkbox_at 68 620]
      else [])"

definition duration_checkbox :: "string \<Rightarrow> draw_op" where
  "duration_checkbox t =
     (if t = ''multiple_entry'' \<or> t = ''multiple'' then checkbox_at 353 583
      else checkbox_at 271 584)"

text \<open>
  The visa type of a record whose \<^verbatim>\<open>visa_info\<close> is absent or a dictionary and whose
  \<^verbatim>\<open>type\<close> there is absent or a string: the string, empty when absent. No other record has
  one.
\<close>

definition visa_type_of :: "pydict \<Rightarrow> string option" where
  "visa_type_of data =
     (case map_of data ''visa_info'' of
        None \<Rightarrow> Some []
      | Some (JDict kvs) \<Rightarrow>
          (case map_of kvs ''type'' of
             None \<Rightarrow> Some []
           | Some (JStr s) \<Rightarrow> Some s
           | Some _ \<Rightarrow> None)
      | Some _ \<Rightarrow> None)"

text \<open>
  A name part of a record whose \<^verbatim>\<open>personal_info\<close> is absent or a dictionary: the string
  under the key, empty when the key is absent or holds a falsy value. A truthy value that is
  not a string is no name part.
\<close>

definition name_part :: "pydict \<Rightarrow> string \<Rightarrow> string option" where
  "name_part data key =
     (case map_of data ''personal_info'' of
        None \<Rightarrow> Some []
      | Some (JDict kvs) \<Rightarrow>
          (case map_of kvs key of
             None \<Rightarrow> Some []
           | Some (JStr s) \<Rightarrow> Some s
           | Some v \<Rightarrow> if truthy v then None else Some [])
      | Some _ \<Rightarrow> None)"

text \<open>Events that insert text, and results that only add such events to a page.\<close>

fun is_text_event :: "event \<Rightarrow> bool" where
  "is_text_event (Drawn (InsertText x y t fc fs c)) = True"
| "is_text_event (Failed (InsertText x y t fc fs c)) = True"
| "is_text_event (Drawn (DrawRect x0 y0 x1 y1 c f)) = False"
| "is_text_event (Failed (DrawRect x0 y0 x1 y1 c f)) = False"

definition adds_text :: "page \<Rightarrow> outcome \<Rightarrow> bool" where
  "adds_text page r \<longleftrightarrow> (\<exists>q. overlay r = page @ q \<and> list_all is_text_event q)"

text \<open>
  The white rectangle over the pre-printed date line, and the order the specification asks
  for: the page begins with the redaction, and everything after it inserts text; a
  redaction that raises ends the fill.
\<close>

definition redaction :: draw_op where
  "redaction = DrawRect 328 382 543 394 (1, 1, 1) (1, 1, 1)"

definition redaction_first :: "page \<Rightarrow> bool" where
  "redaction_first p =
     (case p of
        [] \<Rightarrow> False
      | ev # rest \<Rightarrow>
          if ev = Drawn redaction then list_all is_text_event rest
          else ev = Failed redaction \<and> rest = [])"

text \<open>A text drawn by \<^verbatim>\<open>insert_text\<close> with the default size.\<close>

definition text_at :: "int \<Rightarrow> int \<Rightarrow> string \<Rightarrow> draw_op" where
  "text_at x y t = InsertText x y t (Builtin ''helv'') 9 (0, 0, 0)"

text \<open>The page of the document an entry point leaves behind.\<close>

definition document :: "(error \<times> page) + (page \<times> string) \<Rightarrow> page" where
  "document r = (case r of Inl (e, page) \<Rightarrow> page | Inr (page, full_name) \<Rightarrow> page)"

text \<open>
  Further sample worlds. A Linux host: the two macOS font files are missing, the rest is
  as in \<open>plain_env\<close>. An offline host: the translation library is installed and every request
  fails. A host with the shaping libraries, whose display order is the text reversed (as for
  a run of right-to-left letters). A host on which every library call raises.
\<close>

definition linux_env :: env where
  "linux_env =
     plain_env \<lparr> draw_error :=
       (\<lambda>op. case op of
                InsertText x y t (FontFile file name) fs c \<Rightarrow>
                  if name = ''GeezaPro'' \<or> name = ''SFArabic'' then Some (External ''cannot open font'')
                  else None
              | _ \<Rightarrow> None) \<rparr>"


definition shaping_env :: env where
  "shaping_env = plain_env \<lparr> ARABIC_SUPPORT := True, get_display := rev \<rparr>"

definition broken_env :: env where
  "broken_env = plain_env \<lparr> draw_error := (\<lambda>op. Some (External ''library error'')) \<rparr>"

text \<open>A sample record.\<close>

definition sample_record :: pydict where
  "sample_record =
     [(''personal_info'', JDict [(''first_name'', JStr ''Jean''), (''last_name'', JStr ''Dupont'')]),
      (''visa_info'', JDict [(''type'', JStr ''Multiple'')]),
      (''trip_info'', JDict [(''departure_date_from_dubai'', JStr ''01/02/2026''),
                              (''arrival_date_to_dubai'', JStr ''15/02/2026'')])]"

section \<open>Stripping and lowercasing\<close>

lemma find_Some_holds: "find P xs = Some x \<Longrightarrow> P x \<and> x \<in> set xs"
  by (induction xs) (auto split: if_splits)

lemma after_token_Some:
  assumes "after_token tokens s = Some rest"
  shows "\<exists>t. t \<in> set tokens \<and> t \<noteq> [] \<and> s = t @ rest"
proof -
  from assms obtain t where f: "find (\<lambda>t. t \<noteq> [] \<and> take (length t) s = t) tokens = Some t"
      and rest: "rest = drop (length t) s"
    by (auto simp: after_token_def split: option.splits)
  from find_Some_holds [OF f] have t: "t \<noteq> []" "take (length t) s = t" "t \<in> set tokens"
    by auto
  from t(2) rest have "s = t @ rest"
    by (metis append_take_drop_id)
  with t show ?thesis by blast
qed

lemma after_token_Nil: "after_token tokens [] = None"
  by (auto simp: after_token_def find_None_iff split: option.splits)

lemma strip_leading_Nil [simp]: "strip_leading tokens [] = []"
  by (simp add: strip_leading.simps after_token_Nil)

lemma strip_Nil [simp]: "strip [] = []"
  by (simp add: strip_def)

lemma after_token_keeps:
  assumes "after_token tokens s = Some rest" "c \<in> set s" "\<forall>t \<in> set tokens. c \<notin> set t"
  shows "c \<in> set rest"
proof -
  from after_token_Some [OF assms(1)] obtain t where "t \<in> set tokens" "s = t @ rest"
    by blast
  with assms(2,3) show ?thesis by auto
qed

lemma strip_leading_keeps:
  "c \<in> set s \<Longrightarrow> \<forall>t \<in> set tokens. c \<notin> set t \<Longrightarrow> c \<in> set (strip_leading tokens s)"
proof (induction tokens s rule: strip_leading.induct)
  case (1 tokens s)
  show ?case
  proof (cases "after_token tokens s")
    case None
    with 1 show ?thesis by (simp add: strip_leading.simps)
  next
    case (Some rest)
    with 1 after_token_keeps [OF Some] show ?thesis
      by (simp add: strip_leading.simps)
  qed
qed

text \<open>A text with a byte that occurs in no white space character is not blank.\<close>

lemma strip_keeps:
  assumes "c \<in> set s" "\<forall>t \<in> set whitespace. c \<notin> set t"
  shows "strip s \<noteq> []"
proof -
  from assms have "c \<in> set (strip_leading whitespace s)"
    by (rule strip_leading_keeps)
  then have "c \<in> set (rev (strip_leading whitespace s))" by simp
  moreover from assms(2) have "\<forall>t \<in> set (map rev whitespace). c \<notin> set t" by simp
  ultimately have "c \<in> set (strip_leading (map rev whitespace) (rev (strip_leading whitespace s)))"
    by (rule strip_leading_keeps)
  then show ?thesis by (auto simp: strip_def)
qed

lemma lower_off [simp]: "lower (env\<lparr>TRANSLATION_SUPPORT := b\<rparr>) s = lower env s"
  by (simp add: lower_def)

lemma str_lower_off [simp]: "str_lower (env\<lparr>TRANSLATION_SUPPORT := b\<rparr>) v = str_lower env v"
  by (simp add: str_lower_def cong: json.case_cong)

section \<open>Sequencing\<close>

lemma and_then_Done [simp]: "and_then (Done p) f = f p"
  by (simp add: and_then_def)

lemma and_then_Raised [simp]: "and_then (Raised e p) f = Raised e p"
  by (simp add: and_then_def)

lemma and_then_cong_fun: "(\<And>p. f p = g p) \<Longrightarrow> and_then r f = and_then r g"
  by (cases r) simp_all

section \<open>Skipped fields\<close>

lemma nested_loop_fails: "traversal_fails v keys \<Longrightarrow> nested_loop v keys = JNull"
  by (induction v keys rule: nested_loop.induct) (auto split: json.splits option.splits)

lemma text_fields_loop_skip:
  assumes skip: "\<And>page key. fill_mapped_field coords env data page (json_path, key) = Done page"
  shows "text_fields_loop coords env data ms page =
         text_fields_loop coords env data (filter (\<lambda>m. fst m \<noteq> json_path) ms) page"
proof (induction ms arbitrary: page)
  case Nil
  show ?case by simp
next
  case (Cons m ms)
  obtain p k where m: "m = (p, k)" by (cases m)
  show ?case
  proof (cases "p = json_path")
    case True
    with m skip Cons.IH show ?thesis by simp
  next
    case False
    with m show ?thesis
      by (simp add: and_then_cong_fun [OF Cons.IH])
  qed
qed

lemma fill_mapped_field_falsy:
  "\<not> truthy (get_nested_value data json_path) \<Longrightarrow>
   fill_mapped_field coords env data page (json_path, key) = Done page"
  by (simp add: fill_mapped_field_def)

lemma fill_mapped_field_blank:
  "get_nested_value data json_path = JStr s \<Longrightarrow> strip s = [] \<Longrightarrow>
   fill_mapped_field coords env data page (json_path, key) = Done page"
  by (simp add: fill_mapped_field_def at_field_def insert_text_def split: option.splits)

text \<open>
  C2. When the traversal of the record fails at a segment of a mapped path (the value there
  is not a dictionary, or has no such key), \<open>get_nested_value\<close> gives \<open>None\<close>, the field's step
  leaves the page as it was and raises nothing, and the loop over any mapping list, the
  text-field mapping among them, does exactly what it does on the list without that path:
  the remaining fields are filled.
\<close>

theorem skip_on_failed_traversal:
  assumes "traversal_fails (JDict data) (split_dot json_path)"
  shows "get_nested_value data json_path = JNull \<and>
         fill_mapped_field coords env data page (json_path, coord_key) = Done page \<and>
         text_fields_loop coords env data ms page =
           text_fields_loop coords env data (filter (\<lambda>m. fst m \<noteq> json_path) ms) page"
proof -
  from assms have null: "get_nested_value data json_path = JNull"
    by (simp add: get_nested_value_def nested_loop_fails)
  then have skip: "\<And>page key. fill_mapped_field coords env data page (json_path, key) = Done page"
    by (simp add: fill_mapped_field_falsy)
  from null skip text_fields_loop_skip [of coords env data json_path ms page]
  show ?thesis by simp
qed

theorem skip_on_failed_traversal_witness:
  "traversal_fails (JDict [(''personal_info'', JStr ''Jean'')]) (split_dot ''personal_info.first_name'') \<and>
   get_nested_value [(''personal_info'', JStr ''Jean'')] ''personal_info.first_name'' = JNull \<and>
   fill_mapped_field FIELD_COORDINATES plain_env [(''personal_info'', JStr ''Jean'')] []
     (''personal_info.first_name'', ''first_name'') = Done [] \<and>
   text_fields_loop FIELD_COORDINATES plain_env [(''personal_info'', JStr ''Jean'')] TEXT_FIELD_MAPPINGS [] =
     text_fields_loop FIELD_COORDINATES plain_env [(''personal_info'', JStr ''Jean'')]
       (filter (\<lambda>m. fst m \<noteq> ''personal_info.first_name'') TEXT_FIELD_MAPPINGS) []"
proof -
  have fails: "traversal_fails (JDict [(''personal_info'', JStr ''Jean'')])
                 (split_dot ''personal_info.first_name'')"
    by simp
  from fails skip_on_failed_traversal [OF fails] show ?thesis
    by blast
qed

text \<open>
  C10. When the value at a mapped path is present but falsy (\<open>None\<close>, \<open>False\<close>, \<open>0\<close>, an empty
  string, list or dict), or is a string of white space only, the field's step leaves the
  page as it was and raises nothing, and the loop over any mapping list does what it does
  on the list without that path: the same as for an absent path.
\<close>

theorem falsy_value_writes_nothing:
  assumes present: "\<not> traversal_fails (JDict data) (split_dot json_path)"
      and falsy: "\<not> truthy (get_nested_value data json_path) \<or>
                  (\<exists>s. get_nested_value data json_path = JStr s \<and> strip s = [])"
  shows "fill_mapped_field coords env data page (json_path, coord_key) = Done page \<and>
         text_fields_loop coords env data ms page =
           text_fields_loop coords env data (filter (\<lambda>m. fst m \<noteq> json_path) ms) page"
proof -
  from falsy have skip: "\<And>page key. fill_mapped_field coords env data page (json_path, key) = Done page"
    by (auto simp: fill_mapped_field_falsy fill_mapped_field_blank)
  from skip text_fields_loop_skip [of coords env data json_path ms page]
  show ?thesis by simp
qed

theorem falsy_value_writes_nothing_witness:
  "\<not> traversal_fails (JDict [(''signature_date'', JInt 0)]) (split_dot ''signature_date'') \<and>
   \<not> truthy (get_nested_value [(''signature_date'', JInt 0)] ''signature_date'') \<and>
   fill_mapped_field FIELD_COORDINATES plain_env [(''signature_date'', JInt 0)] []
     (''signature_date'', ''signature_date'') = Done [] \<and>
   text_fields_loop FIELD_COORDINATES plain_env [(''signature_date'', JInt 0)] TEXT_FIELD_MAPPINGS [] =
     text_fields_loop FIELD_COORDINATES plain_env [(''signature_date'', JInt 0)]
       (filter (\<lambda>m. fst m \<noteq> ''signature_date'') TEXT_FIELD_MAPPINGS) []"
proof -
  have present: "\<not> traversal_fails (JDict [(''signature_date'', JInt 0)]) (split_dot ''signature_date'')"
    by simp
  have falsy: "\<not> truthy (get_nested_value [(''signature_date'', JInt 0)] ''signature_date'')"
    by (simp add: get_nested_value_def)
  from present falsy falsy_value_writes_nothing [OF present disjI1 [OF falsy]] show ?thesis
    by blast
qed

section \<open>The font fallback chain\<close>

lemma page_call_returns: "\<not> call_raises env op \<Longrightarrow> page_call env page op = Done (page @ [Drawn op])"
  by (simp add: page_call_def call_raises_def)

lemma page_call_raises: "call_raises env op \<Longrightarrow> \<exists>e. page_call env page op = Raised e (page @ [Failed op])"
  by (auto simp: page_call_def call_raises_def)

lemma try_fonts_trace:
  "try_fonts env page mk fcs =
     (case dropWhile (call_raises env) (map mk fcs) of
        [] \<Rightarrow> (False, page @ map Failed (map mk fcs))
      | op # rest \<Rightarrow> (True, page @ map Failed (takeWhile (call_raises env) (map mk fcs)) @ [Drawn op]))"
proof (induction fcs arbitrary: page)
  case Nil
  show ?case by simp
next
  case (Cons fc fcs)
  show ?case
  proof (cases "call_raises env (mk fc)")
    case True
    then obtain e where call: "page_call env page (mk fc) = Raised e (page @ [Failed (mk fc)])"
      using page_call_raises by blast
    show ?thesis
    proof (cases "dropWhile (call_raises env) (map mk fcs)")
      case Nil
      then show ?thesis
        by (simp add: call True Cons.IH del: dropWhile_eq_Nil_conv)
    next
      case (Cons op rest)
      then show ?thesis
        by (simp add: call True Cons.IH)
    qed
  next
    case False
    then show ?thesis by (simp add: page_call_returns)
  qed
qed

lemma insert_arabic_text_trace:
  "insert_arabic_text env page x y text fontsize =
     Done (page @
       (if text = [] \<or> strip text = [] then []
        else fallback_chain (call_raises env)
               (map (arabic_op env x y text fontsize) font_attempts)
               (arabic_op env x y text fontsize (Builtin ''helv''))))"
proof (cases "text = [] \<or> strip text = []")
  case True
  then show ?thesis by (auto simp: insert_arabic_text_def)
next
  case False
  let ?mk = "arabic_op env x y text fontsize"
  have mk: "(\<lambda>fc. InsertText x y (reshape_arabic_text env text) fc fontsize (0, 0, 0)) = ?mk"
    by (simp add: arabic_op_def fun_eq_iff)
  have helv: "InsertText x y (reshape_arabic_text env text) (Builtin ''helv'') fontsize (0, 0, 0) = ?mk (Builtin ''helv'')"
    by (simp add: arabic_op_def)
  have unfolded: "insert_arabic_text env page x y text fontsize =
     (case try_fonts env page ?mk font_attempts of
        (text_inserted, page') \<Rightarrow>
          if \<not> text_inserted then
            (case page_call env page' (?mk (Builtin ''helv'')) of
               Done page'' \<Rightarrow> Done page''
             | Raised e page'' \<Rightarrow> Done page'')
          else Done page')"
    using False unfolding insert_arabic_text_def Let_def arabic_op_def [abs_def] by simp
  show ?thesis
  proof (cases "dropWhile (call_raises env) (map ?mk font_attempts)")
    case Nil
    then have tf: "try_fonts env page ?mk font_attempts = (False, page @ map Failed (map ?mk font_attempts))"
      by (simp add: try_fonts_trace del: dropWhile_eq_Nil_conv)
    have fc: "fallback_chain (call_raises env) (map ?mk font_attempts) (?mk (Builtin ''helv'')) =
         map Failed (map ?mk font_attempts) @
           [if call_raises env (?mk (Builtin ''helv'')) then Failed (?mk (Builtin ''helv''))
            else Drawn (?mk (Builtin ''helv''))]"
      using Nil by (simp add: fallback_chain_def del: dropWhile_eq_Nil_conv)
    show ?thesis
    proof (cases "call_raises env (?mk (Builtin ''helv''))")
      case True
      then obtain e where "page_call env (page @ map Failed (map ?mk font_attempts)) (?mk (Builtin ''helv''))
          = Raised e ((page @ map Failed (map ?mk font_attempts)) @ [Failed (?mk (Builtin ''helv''))])"
        using page_call_raises by blast
      with False True show ?thesis
        by (simp add: unfolded tf fc)
    next
      case ok: False
      with False show ?thesis
        by (simp add: unfolded tf fc page_call_returns)
    qed
  next
    case (Cons op rest)
    then have tf: "try_fonts env page ?mk font_attempts =
        (True, page @ map Failed (takeWhile (call_raises env) (map ?mk font_attempts)) @ [Drawn op])"
      by (simp add: try_fonts_trace)
    have fc: "fallback_chain (call_raises env) (map ?mk font_attempts) (?mk (Builtin ''helv'')) =
         map Failed (takeWhile (call_raises env) (map ?mk font_attempts)) @ [Drawn op]"
      using Cons by (simp add: fallback_chain_def)
    from False show ?thesis
      by (simp add: unfolded tf fc)
  qed
qed

text \<open>
  C3. For a text that is not blank, \<open>insert_arabic_text\<close> attempts the font candidates in their
  listed order and stops at the first whose draw succeeds; when every candidate fails it
  makes exactly one more attempt, with the base font \<^verbatim>\<open>helv\<close>; and whatever the library does,
  the function returns normally (the result is \<open>Done\<close>, never \<open>Raised\<close>). A blank text draws
  nothing.
\<close>

theorem arabic_font_fallback:
  "insert_arabic_text env page x y text fontsize =
     Done (page @
       (if text = [] \<or> strip text = [] then []
        else fallback_chain (call_raises env)
               (map (arabic_op env x y text fontsize) font_attempts)
               (arabic_op env x y text fontsize (Builtin ''helv''))))"
  by (rule insert_arabic_text_trace)

theorem arabic_font_fallback_witness:
  "insert_arabic_text linux_env [] 450 750 ''Mary'' 7 =
     Done [Failed (InsertText 450 750 ''Mary'' (FontFile ''/System/Library/Fonts/GeezaPro.ttc'' ''GeezaPro'') 7 (0, 0, 0)),
           Failed (InsertText 450 750 ''Mary'' (FontFile ''/System/Library/Fonts/SFArabic.ttf'' ''SFArabic'') 7 (0, 0, 0)),
           Drawn (InsertText 450 750 ''Mary'' (FontFile ''/usr/share/fonts/truetype/dejavu/DejaVuSans.ttf'' ''DejaVuSans'') 7 (0, 0, 0))] \<and>
   insert_arabic_text broken_env [] 450 750 ''Mary'' 7 =
     Done (map (\<lambda>fc. Failed (InsertText 450 750 ''Mary'' fc 7 (0, 0, 0))) (font_attempts @ [Builtin ''helv'']))"
proof -
  have mary: "strip ''Mary'' \<noteq> []"
    by code_simp
  from arabic_font_fallback [of linux_env "[]" 450 750 "''Mary''" 7]
       arabic_font_fallback [of broken_env "[]" 450 750 "''Mary''" 7]
  show ?thesis
    by (simp add: mary fallback_chain_def call_raises_def arabic_op_def reshape_arabic_text_def
          font_attempts_def linux_env_def broken_env_def plain_env_def)
qed

section \<open>Translation failures\<close>

lemma translate_to_arabic_fallback:
  assumes "\<not> TRANSLATION_SUPPORT env \<or> (\<exists>e. translate env text = Inl e)"
  shows "translate_to_arabic env (JStr text) = Inr (JStr text)"
  using assms by (auto simp: translate_to_arabic_def)

lemma translate_to_arabic_off [simp]:
  "translate_to_arabic (env\<lparr>TRANSLATION_SUPPORT := False\<rparr>) v = Inr v"
  by (simp add: translate_to_arabic_def)

lemma page_call_off [simp]:
  "page_call (env\<lparr>TRANSLATION_SUPPORT := b\<rparr>) page op = page_call env page op"
  by (simp add: page_call_def)

lemma call_raises_off [simp]:
  "call_raises (env\<lparr>TRANSLATION_SUPPORT := b\<rparr>) = call_raises env"
  by (simp add: call_raises_def fun_eq_iff)

lemma arabic_op_off [simp]:
  "arabic_op (env\<lparr>TRANSLATION_SUPPORT := b\<rparr>) = arabic_op env"
  by (simp add: arabic_op_def reshape_arabic_text_def fun_eq_iff)

lemma insert_arabic_text_off [simp]:
  "insert_arabic_text (env\<lparr>TRANSLATION_SUPPORT := b\<rparr>) page x y text fontsize =
   insert_arabic_text env page x y text fontsize"
  by (simp only: insert_arabic_text_trace call_raises_off arabic_op_off)

lemma insert_text_off [simp]:
  "insert_text (env\<lparr>TRANSLATION_SUPPORT := b\<rparr>) page x y text fontsize =
   insert_text env page x y text fontsize"
  by (simp add: insert_text_def)

lemma insert_checkbox_off [simp]:
  "insert_checkbox (env\<lparr>TRANSLATION_SUPPORT := b\<rparr>) page x y = insert_checkbox env page x y"
  by (simp add: insert_checkbox_def)

lemma py_str_off [simp]:
  "py_str (env\<lparr>TRANSLATION_SUPPORT := b\<rparr>) v = py_str env v"
  by (cases v) simp_all

lemma fill_mapped_field_off [simp]:
  "fill_mapped_field coords (env\<lparr>TRANSLATION_SUPPORT := b\<rparr>) data page m =
   fill_mapped_field coords env data page m"
  by (simp add: fill_mapped_field_def Let_def cong: if_cong)

lemma text_fields_loop_off [simp]:
  "text_fields_loop coords (env\<lparr>TRANSLATION_SUPPORT := b\<rparr>) data ms page =
   text_fields_loop coords env data ms page"
proof (induction ms arbitrary: page)
  case Nil
  show ?case by simp
next
  case (Cons m ms)
  show ?case
    by (simp add: and_then_cong_fun [OF Cons.IH])
qed

lemma fill_two_fields_off [simp]:
  "fill_two_fields coords (env\<lparr>TRANSLATION_SUPPORT := b\<rparr>) data json_path key1 key2 page =
   fill_two_fields coords env data json_path key1 key2 page"
  by (simp add: fill_two_fields_def Let_def cong: if_cong)

lemma fill_visa_type_label_off [simp]:
  "fill_visa_type_label coords (env\<lparr>TRANSLATION_SUPPORT := b\<rparr>) data page =
   fill_visa_type_label coords env data page"
  by (simp add: fill_visa_type_label_def Let_def cong: if_cong option.case_cong)

lemma insert_checkbox_off_fun [simp]:
  "insert_checkbox (env\<lparr>TRANSLATION_SUPPORT := b\<rparr>) page = insert_checkbox env page"
  by (simp add: fun_eq_iff)

lemma fill_checkboxes_off [simp]:
  "fill_checkboxes coords (env\<lparr>TRANSLATION_SUPPORT := b\<rparr>) page data =
   fill_checkboxes coords env page data"
  by (simp add: fill_checkboxes_def cong: option.case_cong)

lemma redact_existing_dates_off [simp]:
  "redact_existing_dates (env\<lparr>TRANSLATION_SUPPORT := b\<rparr>) page = redact_existing_dates env page"
  by (simp add: redact_existing_dates_def redact_area_def)

lemma fill_accompanied_by_string:
  assumes name: "get_nested_value data ''accompany_name'' = JStr text"
      and fails: "\<not> TRANSLATION_SUPPORT env \<or> (\<exists>e. translate env text = Inl e)"
  shows "fill_accompanied_by coords env data page =
         (if text = [] then Done page
          else case map_of coords ''accompanied_by_arabic'' of
                 None \<Rightarrow> Done page
               | Some (x, y) \<Rightarrow>
                   insert_arabic_text env page x y (ARABIC_ACCOMPANIED_BY_PREFIX @ text)
                     (BOTTOM_LABEL_FONT_SIZE env))"
proof -
  have tr: "translate_to_arabic env (JStr text) = Inr (JStr text)"
    by (rule translate_to_arabic_fallback [OF fails])
  show ?thesis
    by (simp add: fill_accompanied_by_def name tr try_val_def str_concat_def
          cong: option.case_cong)
qed





section \<open>Steps only add text to the page\<close>

lemma adds_text_Done [simp]: "adds_text page (Done page)"
  by (simp add: adds_text_def overlay_def)

lemma adds_text_Raised [simp]: "adds_text page (Raised e page)"
  by (simp add: adds_text_def overlay_def)

lemma adds_text_page_call [simp]: "adds_text page (page_call env page (InsertText x y t fc fs c))"
  by (simp add: adds_text_def overlay_def page_call_def split: option.splits)

lemma adds_text_and_then:
  assumes r: "adds_text page r" and f: "\<And>p. adds_text p (f p)"
  shows "adds_text page (and_then r f)"
proof (cases r)
  case (Done p)
  with r obtain q where q: "p = page @ q" "list_all is_text_event q"
    by (auto simp: adds_text_def overlay_def)
  from f [of p] obtain q' where q': "overlay (f p) = p @ q'" "list_all is_text_event q'"
    by (auto simp: adds_text_def)
  from Done q q' show ?thesis
    by (simp add: adds_text_def)
next
  case (Raised e p)
  with r show ?thesis by simp
qed

lemma adds_text_try_val:
  "(\<And>v. adds_text page (f v)) \<Longrightarrow> adds_text page (try_val r page f)"
  by (cases r) (simp_all add: try_val_def)

lemma adds_text_at_field:
  "(\<And>x y. adds_text page (f x y)) \<Longrightarrow> adds_text page (at_field coords key page f)"
  by (auto simp: at_field_def split: option.splits)

lemma adds_text_insert_text [simp]: "adds_text page (insert_text env page x y text fontsize)"
  by (simp add: insert_text_def)

lemma adds_text_insert_checkbox [simp]: "adds_text page (insert_checkbox env page x y)"
  by (simp add: insert_checkbox_def)

lemma fallback_chain_text:
  assumes cands: "\<forall>op \<in> set candidates. \<exists>x y t fc fs c. op = InsertText x y t fc fs c"
      and fin: "\<exists>x y t fc fs c. final = InsertText x y t fc fs c"
  shows "list_all is_text_event (fallback_chain fails candidates final)"
proof -
  have cand_ev: "is_text_event (Failed op) \<and> is_text_event (Drawn op)" if "op \<in> set candidates" for op
    using cands that by fastforce
  have final_ev: "is_text_event (Failed final) \<and> is_text_event (Drawn final)"
    using fin by fastforce
  show ?thesis
  proof (cases "dropWhile fails candidates")
    case Nil
    then have "fallback_chain fails candidates final =
        map Failed candidates @ [if fails final then Failed final else Drawn final]"
      by (simp add: fallback_chain_def del: dropWhile_eq_Nil_conv)
    with cand_ev final_ev show ?thesis
      by (simp add: list_all_iff)
  next
    case (Cons op rest)
    then have "op \<in> set candidates"
      by (metis list.set_intros(1) set_dropWhileD)
    moreover have "x \<in> set candidates" if "x \<in> set (takeWhile fails candidates)" for x
      using that by (rule set_takeWhileD [THEN conjunct1])
    moreover have "fallback_chain fails candidates final =
        map Failed (takeWhile fails candidates) @ [Drawn op]"
      using Cons by (simp add: fallback_chain_def)
    ultimately show ?thesis
      using cand_ev by (simp add: list_all_iff)
  qed
qed

lemma adds_text_insert_arabic_text [simp]:
  "adds_text page (insert_arabic_text env page x y text fontsize)"
  by (auto simp: insert_arabic_text_trace adds_text_def overlay_def arabic_op_def
        intro!: fallback_chain_text)

lemma adds_text_fill_checkboxes: "adds_text page (fill_checkboxes coords env page data)"
  unfolding fill_checkboxes_def Let_def
  by (intro adds_text_try_val adds_text_and_then adds_text_at_field)
     (auto split: option.splits intro!: adds_text_at_field)

lemma adds_text_fill_mapped_field: "adds_text page (fill_mapped_field coords env data page m)"
  by (cases m) (auto simp: fill_mapped_field_def Let_def intro!: adds_text_at_field)

lemma adds_text_text_fields_loop: "adds_text page (text_fields_loop coords env data ms page)"
  by (induction ms arbitrary: page)
     (auto intro!: adds_text_and_then adds_text_fill_mapped_field)

lemma adds_text_fill_two_fields:
  "adds_text page (fill_two_fields coords env data json_path key1 key2 page)"
  by (auto simp: fill_two_fields_def Let_def intro!: adds_text_and_then adds_text_at_field)

lemma adds_text_fill_accompanied_by: "adds_text page (fill_accompanied_by coords env data page)"
  by (auto simp: fill_accompanied_by_def Let_def split: option.splits intro!: adds_text_try_val)

lemma adds_text_fill_visa_type_label: "adds_text page (fill_visa_type_label coords env data page)"
  by (auto simp: fill_visa_type_label_def Let_def split: option.splits intro!: adds_text_try_val)

lemma adds_text_fill_text_fields: "adds_text page (fill_text_fields coords env page data)"
  unfolding fill_text_fields_def
  by (intro adds_text_and_then adds_text_text_fields_loop adds_text_fill_two_fields
        adds_text_fill_accompanied_by adds_text_fill_visa_type_label)

section \<open>Redaction comes first\<close>

lemma document_generate: "document (generate_filled_pdf_bytes env data) = overlay (draw_form env data)"
  by (simp add: document_def generate_filled_pdf_bytes_def overlay_def split: outcome.splits sum.splits)

lemma redaction_first_draw_form: "redaction_first (overlay (draw_form env data))"
proof (cases "draw_error env redaction")
  case None
  then have red: "redact_existing_dates env [] = Done [Drawn redaction]"
    by (simp add: redact_existing_dates_def redact_area_def page_call_def redaction_def)
  have "adds_text [Drawn redaction]
          (and_then (fill_checkboxes FIELD_COORDINATES env [Drawn redaction] data)
             (\<lambda>page. fill_text_fields FIELD_COORDINATES env page data))"
    by (intro adds_text_and_then adds_text_fill_checkboxes adds_text_fill_text_fields)
  with red show ?thesis
    by (auto simp: draw_form_def adds_text_def redaction_first_def)
next
  case (Some e)
  then have "redact_existing_dates env [] = Raised e [Failed redaction]"
    by (simp add: redact_existing_dates_def redact_area_def page_call_def redaction_def)
  then show ?thesis
    by (simp add: draw_form_def redaction_first_def overlay_def)
qed

text \<open>
  C8. In both entry points the redaction of the pre-printed date region is the first
  operation on the page: no draw precedes it, and every checkbox mark and text comes
  after it. (When the redaction call itself raises, nothing else is drawn.)
\<close>

theorem redaction_precedes_writing:
  "redaction_first (document (generate_filled_pdf_bytes env data)) \<and>
   redaction_first (overlay (fill_visa_form env data))"
  by (simp add: document_generate fill_visa_form_def redaction_first_draw_form)

theorem redaction_precedes_writing_witness:
  "document (generate_filled_pdf_bytes plain_env sample_record) =
     [Drawn redaction,
      Drawn (checkbox_at 68 620), Drawn (checkbox_at 353 583),
      Drawn (text_at 67 154 ''Jean''), Drawn (text_at 323 154 ''Dupont''),
      Drawn (text_at 328 393 ''01/02/2026''), Drawn (text_at 72 544 ''01/02/2026''),
      Drawn (text_at 420 393 ''15/02/2026''), Drawn (text_at 328 544 ''15/02/2026'')] \<and>
   redaction_first (document (generate_filled_pdf_bytes plain_env sample_record)) \<and>
   redaction_first (overlay (fill_visa_form plain_env sample_record))"
proof -
  have "document (generate_filled_pdf_bytes plain_env sample_record) =
     [Drawn redaction,
      Drawn (checkbox_at 68 620), Drawn (checkbox_at 353 583),
      Drawn (text_at 67 154 ''Jean''), Drawn (text_at 323 154 ''Dupont''),
      Drawn (text_at 328 393 ''01/02/2026''), Drawn (text_at 72 544 ''01/02/2026''),
      Drawn (text_at 420 393 ''15/02/2026''), Drawn (text_at 328 544 ''15/02/2026'')]"
    by code_simp
  with redaction_precedes_writing [of plain_env sample_record] show ?thesis
    by simp
qed

section \<open>The two trip dates\<close>

lemma drawn_append [simp]: "drawn (p @ q) = drawn p @ drawn q"
  by (simp add: drawn_def)

lemma drawn_Drawn [simp]: "drawn (Drawn op # p) = op # drawn p"
  by (simp add: drawn_def)

lemma page_call_ok: "\<forall>op. draw_error env op = None \<Longrightarrow> page_call env page op = Done (page @ [Drawn op])"
  by (simp add: page_call_def)

lemma fill_mapped_field_ok:
  assumes ok: "\<forall>op. draw_error env op = None"
  shows "\<exists>q. fill_mapped_field coords env data page m = Done (page @ q)"
  by (cases m)
     (auto simp: fill_mapped_field_def Let_def at_field_def insert_text_def page_call_ok [OF ok]
        split: option.splits)

lemma text_fields_loop_ok:
  assumes ok: "\<forall>op. draw_error env op = None"
  shows "\<exists>q. text_fields_loop coords env data ms page = Done (page @ q)"
proof (induction ms arbitrary: page)
  case Nil
  show ?case by simp
next
  case (Cons m ms)
  from fill_mapped_field_ok [OF ok] obtain q where
    q: "fill_mapped_field coords env data page m = Done (page @ q)" by blast
  from Cons.IH [of "page @ q"] obtain q' where
    "text_fields_loop coords env data ms (page @ q) = Done ((page @ q) @ q')" by blast
  with q show ?case by simp
qed

lemma fill_two_fields_ok:
  assumes ok: "\<forall>op. draw_error env op = None"
  shows "\<exists>q. fill_two_fields coords env data json_path key1 key2 page = Done (page @ q)"
  by (auto simp: fill_two_fields_def Let_def at_field_def insert_text_def page_call_ok [OF ok]
        split: option.splits)

lemma fill_two_fields_skip:
  "\<not> (truthy (get_nested_value data json_path) \<and> strip (py_str env (get_nested_value data json_path)) \<noteq> []) \<Longrightarrow>
   fill_two_fields coords env data json_path key1 key2 page = Done page"
  by (auto simp: fill_two_fields_def Let_def at_field_def insert_text_def split: option.splits)

lemma fill_two_fields_writes:
  assumes ok: "\<forall>op. draw_error env op = None"
      and v: "truthy (get_nested_value data json_path)"
             "strip (py_str env (get_nested_value data json_path)) \<noteq> []"
      and k1: "map_of coords key1 = Some (x1, y1)"
      and k2: "map_of coords key2 = Some (x2, y2)"
  shows "fill_two_fields coords env data json_path key1 key2 page =
         Done (page @ [Drawn (text_at x1 y1 (py_str env (get_nested_value data json_path))),
                       Drawn (text_at x2 y2 (py_str env (get_nested_value data json_path)))])"
proof -
  from v(2) have "py_str env (get_nested_value data json_path) \<noteq> []" by auto
  with v k1 k2 show ?thesis
    by (simp add: fill_two_fields_def Let_def at_field_def insert_text_def page_call_ok [OF ok]
          text_at_def FONT_NAME_def FONT_SIZE_def)
qed

lemma coords_dates:
  "map_of FIELD_COORDINATES ''trip_start_date'' = Some (328, 393)"
  "map_of FIELD_COORDINATES ''arrival_date'' = Some (72, 544)"
  "map_of FIELD_COORDINATES ''trip_end_date'' = Some (420, 393)"
  "map_of FIELD_COORDINATES ''departure_date'' = Some (328, 544)"
  by (simp_all add: FIELD_COORDINATES_def)

lemma fill_text_fields_overlay:
  assumes ok: "\<forall>op. draw_error env op = None"
  shows "\<exists>p1 q2 q3 q4.
           (\<exists>q1. p1 = page @ q1) \<and>
           fill_two_fields coords env data ''trip_info.departure_date_from_dubai''
             ''trip_start_date'' ''arrival_date'' p1 = Done (p1 @ q2) \<and>
           fill_two_fields coords env data ''trip_info.arrival_date_to_dubai''
             ''trip_end_date'' ''departure_date'' (p1 @ q2) = Done (p1 @ q2 @ q3) \<and>
           overlay (fill_text_fields coords env page data) = p1 @ q2 @ q3 @ q4"
proof -
  from text_fields_loop_ok [OF ok] obtain q1 where
    loop: "text_fields_loop coords env data TEXT_FIELD_MAPPINGS page = Done (page @ q1)" by blast
  from fill_two_fields_ok [OF ok] obtain q2 where
    dep: "fill_two_fields coords env data ''trip_info.departure_date_from_dubai''
            ''trip_start_date'' ''arrival_date'' (page @ q1) = Done ((page @ q1) @ q2)" by blast
  from fill_two_fields_ok [OF ok] obtain q3 where
    arr: "fill_two_fields coords env data ''trip_info.arrival_date_to_dubai''
            ''trip_end_date'' ''departure_date'' ((page @ q1) @ q2) = Done (((page @ q1) @ q2) @ q3)" by blast
  have "adds_text (((page @ q1) @ q2) @ q3)
          (and_then (fill_accompanied_by coords env data (((page @ q1) @ q2) @ q3))
             (fill_visa_type_label coords env data))"
    by (intro adds_text_and_then adds_text_fill_accompanied_by adds_text_fill_visa_type_label)
  then obtain q4 where
    rest: "overlay (and_then (fill_accompanied_by coords env data (((page @ q1) @ q2) @ q3))
             (fill_visa_type_label coords env data)) = (((page @ q1) @ q2) @ q3) @ q4"
    by (auto simp: adds_text_def)
  have "overlay (fill_text_fields coords env page data) = (page @ q1) @ q2 @ q3 @ q4"
    using loop dep arr rest by (simp add: fill_text_fields_def)
  with dep arr show ?thesis
    by (intro exI [of _ "page @ q1"] exI [of _ q2] exI [of _ q3] exI [of _ q4]) auto
qed

text \<open>
  C9, as amended. Provided no call of the library raises: when the value at
  \<^verbatim>\<open>trip_info.departure_date_from_dubai\<close> is present and not empty (truthy, with a text that
  is not blank), \<open>fill_text_fields\<close> writes its text at the \<^verbatim>\<open>trip_start_date\<close> and the
  \<^verbatim>\<open>arrival_date\<close> coordinates; when the value at \<^verbatim>\<open>trip_info.arrival_date_to_dubai\<close> is,
  its text is written at the \<^verbatim>\<open>trip_end_date\<close> and the \<^verbatim>\<open>departure_date\<close> coordinates.
  Each of the two is skipped on its own when its value is missing or empty: its step then
  leaves the page as it is.
\<close>

theorem dates_written_twice:
  assumes ok: "\<forall>op. draw_error env op = None"
  shows "(let v = get_nested_value data ''trip_info.departure_date_from_dubai'' in
            (truthy v \<and> strip (py_str env v) \<noteq> [] \<longrightarrow>
               {text_at 328 393 (py_str env v), text_at 72 544 (py_str env v)}
                 \<subseteq> set (drawn (overlay (fill_text_fields FIELD_COORDINATES env page data)))) \<and>
            (\<not> (truthy v \<and> strip (py_str env v) \<noteq> []) \<longrightarrow>
               fill_two_fields FIELD_COORDINATES env data ''trip_info.departure_date_from_dubai''
                 ''trip_start_date'' ''arrival_date'' page' = Done page')) \<and>
         (let v = get_nested_value data ''trip_info.arrival_date_to_dubai'' in
            (truthy v \<and> strip (py_str env v) \<noteq> [] \<longrightarrow>
               {text_at 420 393 (py_str env v), text_at 328 544 (py_str env v)}
                 \<subseteq> set (drawn (overlay (fill_text_fields FIELD_COORDINATES env page data)))) \<and>
            (\<not> (truthy v \<and> strip (py_str env v) \<noteq> []) \<longrightarrow>
               fill_two_fields FIELD_COORDINATES env data ''trip_info.arrival_date_to_dubai''
                 ''trip_end_date'' ''departure_date'' page' = Done page'))"
proof -
  from fill_text_fields_overlay [OF ok, of page FIELD_COORDINATES data]
  obtain p1 q2 q3 q4 where
    dep: "fill_two_fields FIELD_COORDINATES env data ''trip_info.departure_date_from_dubai''
            ''trip_start_date'' ''arrival_date'' p1 = Done (p1 @ q2)" and
    arr: "fill_two_fields FIELD_COORDINATES env data ''trip_info.arrival_date_to_dubai''
            ''trip_end_date'' ''departure_date'' (p1 @ q2) = Done (p1 @ q2 @ q3)" and
    all: "overlay (fill_text_fields FIELD_COORDINATES env page data) = p1 @ q2 @ q3 @ q4"
    by blast
  let ?d = "get_nested_value data ''trip_info.departure_date_from_dubai''"
  let ?a = "get_nested_value data ''trip_info.arrival_date_to_dubai''"
  have d: "{text_at 328 393 (py_str env ?d), text_at 72 544 (py_str env ?d)}
             \<subseteq> set (drawn (overlay (fill_text_fields FIELD_COORDINATES env page data)))"
    if "truthy ?d" "strip (py_str env ?d) \<noteq> []"
  proof -
    from dep fill_two_fields_writes [OF ok that coords_dates(1) coords_dates(2), of p1]
    have "q2 = [Drawn (text_at 328 393 (py_str env ?d)), Drawn (text_at 72 544 (py_str env ?d))]"
      by simp
    with all show ?thesis by simp
  qed
  have a: "{text_at 420 393 (py_str env ?a), text_at 328 544 (py_str env ?a)}
             \<subseteq> set (drawn (overlay (fill_text_fields FIELD_COORDINATES env page data)))"
    if "truthy ?a" "strip (py_str env ?a) \<noteq> []"
  proof -
    from arr fill_two_fields_writes [OF ok that coords_dates(3) coords_dates(4), of "p1 @ q2"]
    have "q3 = [Drawn (text_at 420 393 (py_str env ?a)), Drawn (text_at 328 544 (py_str env ?a))]"
      by simp
    with all show ?thesis by simp
  qed
  from d a show ?thesis
    unfolding Let_def
    by (intro conjI impI fill_two_fields_skip) blast+
qed

theorem dates_written_twice_witness:
  "(\<forall>op. draw_error plain_env op = None) \<and>
   {text_at 328 393 ''01/02/2026'', text_at 72 544 ''01/02/2026'',
    text_at 420 393 ''15/02/2026'', text_at 328 544 ''15/02/2026''}
     \<subseteq> set (drawn (overlay (fill_text_fields FIELD_COORDINATES plain_env [] sample_record))) \<and>
   fill_two_fields FIELD_COORDINATES plain_env [] ''trip_info.departure_date_from_dubai''
     ''trip_start_date'' ''arrival_date'' [] = Done [] \<and>
   fill_two_fields FIELD_COORDINATES plain_env [] ''trip_info.arrival_date_to_dubai''
     ''trip_end_date'' ''departure_date'' [] = Done []"
proof -
  have ok: "\<forall>op. draw_error plain_env op = None"
    by (simp add: plain_env_def)
  have d: "get_nested_value sample_record ''trip_info.departure_date_from_dubai'' = JStr ''01/02/2026''"
    by (simp add: get_nested_value_def sample_record_def)
  have a: "get_nested_value sample_record ''trip_info.arrival_date_to_dubai'' = JStr ''15/02/2026''"
    by (simp add: get_nested_value_def sample_record_def)
  have s: "strip ''01/02/2026'' \<noteq> []" "strip ''15/02/2026'' \<noteq> []"
    by code_simp+
  have e: "get_nested_value [] ''trip_info.departure_date_from_dubai'' = JNull"
          "get_nested_value [] ''trip_info.arrival_date_to_dubai'' = JNull"
    by (simp_all add: get_nested_value_def)
  from dates_written_twice [OF ok, of sample_record "[]" "[]"] d a s
  have written: "{text_at 328 393 ''01/02/2026'', text_at 72 544 ''01/02/2026'',
    text_at 420 393 ''15/02/2026'', text_at 328 544 ''15/02/2026''}
     \<subseteq> set (drawn (overlay (fill_text_fields FIELD_COORDINATES plain_env [] sample_record)))"
    by simp
  from dates_written_twice [OF ok, of "[]" "[]" "[]"] e
  have skipped: "fill_two_fields FIELD_COORDINATES plain_env [] ''trip_info.departure_date_from_dubai''
     ''trip_start_date'' ''arrival_date'' [] = Done [] \<and>
   fill_two_fields FIELD_COORDINATES plain_env [] ''trip_info.arrival_date_to_dubai''
     ''trip_end_date'' ''departure_date'' [] = Done []"
    by simp
  from ok written skipped show ?thesis by blast
qed

text \<open>
  C9 as stated fails: a departure date that is one space, or the number 0, is present and
  written nowhere; and where the library raises, a proper date is written nowhere either.
\<close>

theorem dates_counterexample:
  "fill_text_fields FIELD_COORDINATES plain_env []
     [(''trip_info'', JDict [(''departure_date_from_dubai'', JStr '' '')])] = Done [] \<and>
   fill_text_fields FIELD_COORDINATES plain_env []
     [(''trip_info'', JDict [(''departure_date_from_dubai'', JInt 0)])] = Done [] \<and>
   drawn (overlay (fill_text_fields FIELD_COORDINATES broken_env []
     [(''trip_info'', JDict [(''departure_date_from_dubai'', JStr ''01/02/2026'')])])) = []"
  by code_simp

section \<open>The visa type and duration checkboxes\<close>

lemma visa_type_of_gets:
  assumes "visa_type_of data = Some t"
  shows "\<exists>visa. dict_get (JDict data) ''visa_info'' (JDict []) = Inr visa \<and>
                dict_get visa ''type'' (JStr []) = Inr (JStr t)"
  using assms
  by (auto simp: visa_type_of_def dict_get_def split: option.splits json.splits)

lemma type_boxes:
  "subscript CHECKBOX_MAPPINGS ''visa_type'' =
     Inr [(''single_entry'', ''checkbox_single_entry''), (''single'', ''checkbox_single_entry''),
          (''two_entry'', ''checkbox_two_entry''), (''double'', ''checkbox_two_entry''),
          (''multiple_entry'', ''checkbox_multiple_entry''), (''multiple'', ''checkbox_multiple_entry'')]"
  by (simp add: subscript_def CHECKBOX_MAPPINGS_def)

lemma duration_boxes:
  "\<exists>boxes. subscript CHECKBOX_MAPPINGS ''visa_duration'' = Inr boxes \<and>
     map_of boxes ''six_months'' = Some ''checkbox_six_months'' \<and>
     map_of boxes ''three_months'' = Some ''checkbox_three_months''"
  by (simp add: subscript_def CHECKBOX_MAPPINGS_def)

lemma coords_checkboxes:
  "map_of FIELD_COORDINATES ''checkbox_single_entry'' = Some (68, 577)"
  "map_of FIELD_COORDINATES ''checkbox_two_entry'' = Some (68, 599)"
  "map_of FIELD_COORDINATES ''checkbox_multiple_entry'' = Some (68, 620)"
  "map_of FIELD_COORDINATES ''checkbox_three_months'' = Some (271, 584)"
  "map_of FIELD_COORDINATES ''checkbox_six_months'' = Some (353, 583)"
  by (simp_all add: FIELD_COORDINATES_def)

lemma insert_checkbox_ok:
  "\<forall>op. draw_error env op = None \<Longrightarrow>
   insert_checkbox env page x y = Done (page @ [Drawn (checkbox_at x y)])"
  by (simp add: insert_checkbox_def page_call_ok checkbox_at_def CHECKBOX_CHAR_def FONT_NAME_def
        CHECKBOX_FONT_SIZE_def)

lemma mark_type:
  assumes ok: "\<forall>op. draw_error env op = None"
  shows "(case map_of [(''single_entry'', ''checkbox_single_entry''), (''single'', ''checkbox_single_entry''),
          (''two_entry'', ''checkbox_two_entry''), (''double'', ''checkbox_two_entry''),
          (''multiple_entry'', ''checkbox_multiple_entry''), (''multiple'', ''checkbox_multiple_entry'')] t of
            None \<Rightarrow> Done page
          | Some checkbox_key \<Rightarrow> at_field FIELD_COORDINATES checkbox_key page (insert_checkbox env page))
         = Done (page @ map Drawn (type_checkbox t))"
  by (simp add: type_checkbox_def at_field_def coords_checkboxes insert_checkbox_ok [OF ok])

lemma mark_duration:
  assumes ok: "\<forall>op. draw_error env op = None"
      and boxes: "map_of boxes ''six_months'' = Some ''checkbox_six_months''"
                 "map_of boxes ''three_months'' = Some ''checkbox_three_months''"
  shows "(case map_of boxes (if t \<in> set [''multiple_entry'', ''multiple''] then ''six_months'' else ''three_months'') of
            None \<Rightarrow> Done page
          | Some checkbox_key \<Rightarrow> at_field FIELD_COORDINATES checkbox_key page (insert_checkbox env page))
         = Done (page @ [Drawn (duration_checkbox t)])"
  by (simp add: duration_checkbox_def at_field_def coords_checkboxes insert_checkbox_ok [OF ok] boxes)

text \<open>
  On a record whose \<^verbatim>\<open>visa_info\<close> is absent or a dictionary and whose type there is absent
  or a string, and with no library call raising, \<open>fill_checkboxes\<close> marks what the
  specification asks for: one type checkbox for a recognized type and none otherwise, then
  exactly one duration checkbox, the six-month one for \<^verbatim>\<open>multiple_entry\<close> and \<^verbatim>\<open>multiple\<close>
  and the three-month one for everything else.
\<close>

lemma checkboxes_for_visa_type:
  assumes ok: "\<forall>op. draw_error env op = None"
      and t: "visa_type_of data = Some t"
  shows "fill_checkboxes FIELD_COORDINATES env page data =
         Done (page @ map Drawn (type_checkbox (lower env t) @ [duration_checkbox (lower env t)]))"
proof -
  from visa_type_of_gets [OF t] obtain visa where
    visa: "dict_get (JDict data) ''visa_info'' (JDict []) = Inr visa"
          "dict_get visa ''type'' (JStr []) = Inr (JStr t)" by blast
  from duration_boxes obtain boxes where
    boxes: "subscript CHECKBOX_MAPPINGS ''visa_duration'' = Inr boxes"
           "map_of boxes ''six_months'' = Some ''checkbox_six_months''"
           "map_of boxes ''three_months'' = Some ''checkbox_three_months''" by blast
  show ?thesis
    unfolding fill_checkboxes_def Let_def
    by (simp only: visa try_val_def sum.case str_lower_def json.case type_boxes boxes(1)
          mark_type [OF ok] mark_duration [OF ok boxes(2,3)] and_then_Done map_append
          list.map append_assoc)
qed

lemma checkboxes_for_visa_type_example:
  "(\<forall>op. draw_error plain_env op = None) \<and>
   visa_type_of sample_record = Some ''Multiple'' \<and>
   fill_checkboxes FIELD_COORDINATES plain_env [] sample_record =
     Done [Drawn (checkbox_at 68 620), Drawn (checkbox_at 353 583)] \<and>
   visa_type_of [(''visa_info'', JDict [(''type'', JStr ''tourist'')])] = Some ''tourist'' \<and>
   fill_checkboxes FIELD_COORDINATES plain_env [] [(''visa_info'', JDict [(''type'', JStr ''tourist'')])] =
     Done [Drawn (checkbox_at 271 584)]"
proof -
  have ok: "\<forall>op. draw_error plain_env op = None"
    by (simp add: plain_env_def)
  have t1: "visa_type_of sample_record = Some ''Multiple''"
    by (simp add: visa_type_of_def sample_record_def)
  have t2: "visa_type_of [(''visa_info'', JDict [(''type'', JStr ''tourist'')])] = Some ''tourist''"
    by (simp add: visa_type_of_def)
  have l1: "lower plain_env ''Multiple'' = ''multiple''"
    by (simp add: lower_def lower_char_def is_ascii_def)
  have l2: "lower plain_env ''tourist'' = ''tourist''"
    by (simp add: lower_def lower_char_def is_ascii_def)
  from checkboxes_for_visa_type [OF ok t1, of "[]"]
  have r1: "fill_checkboxes FIELD_COORDINATES plain_env [] sample_record =
     Done [Drawn (checkbox_at 68 620), Drawn (checkbox_at 353 583)]"
    by (simp add: l1 type_checkbox_def duration_checkbox_def)
  from checkboxes_for_visa_type [OF ok t2, of "[]"]
  have r2: "fill_checkboxes FIELD_COORDINATES plain_env [] [(''visa_info'', JDict [(''type'', JStr ''tourist'')])] =
     Done [Drawn (checkbox_at 271 584)]"
    by (simp add: l2 type_checkbox_def duration_checkbox_def)
  show ?thesis by (intro conjI) (rule ok t1 t2 r1 r2)+
qed

text \<open>
  C1. The claim asks for the three-month checkbox whenever the visa type is absent or
  unrecognized. For a record whose visa type is \<^verbatim>\<open>null\<close>, or whose \<^verbatim>\<open>visa_info\<close> is \<^verbatim>\<open>null\<close>,
  \<open>fill_checkboxes\<close> raises \<^verbatim>\<open>AttributeError\<close> instead and marks nothing, where
  \<open>get_nested_value\<close> reads the same record without an error.
\<close>

theorem fill_checkboxes_null_type:
  "fill_checkboxes FIELD_COORDINATES plain_env [] [(''visa_info'', JDict [(''type'', JNull)])] =
     Raised AttributeError [] \<and>
   fill_checkboxes FIELD_COORDINATES plain_env [] [(''visa_info'', JNull)] =
     Raised AttributeError [] \<and>
   get_nested_value [(''visa_info'', JDict [(''type'', JNull)])] ''visa_info.type'' = JNull \<and>
   get_nested_value [(''visa_info'', JNull)] ''visa_info.type'' = JNull"
  by (simp add: fill_checkboxes_def dict_get_def try_val_def str_lower_def get_nested_value_def)

section \<open>The full name\<close>

lemma upper_char_N: "upper_char c = CHR ''N'' \<longleftrightarrow> c = CHR ''N'' \<or> c = CHR ''n''"
  by (auto simp: upper_char_def split: if_splits)

lemma upper_char_A: "upper_char c = CHR ''A'' \<longleftrightarrow> c = CHR ''A'' \<or> c = CHR ''a''"
  by (auto simp: upper_char_def split: if_splits)

lemma upper_char_slash: "upper_char c = CHR ''/'' \<longleftrightarrow> c = CHR ''/''"
  by (auto simp: upper_char_def split: if_splits)

lemma upper_is_NA: "upper s = ''N/A'' \<longleftrightarrow> s \<in> {''N/A'', ''N/a'', ''n/A'', ''n/a''}"
  by (auto simp: upper_def upper_char_N upper_char_A upper_char_slash map_eq_Cons_conv)

lemma name_parts_loop_strings:
  "name_parts_loop (map JStr ss) acc =
   Inr (acc @ filter (\<lambda>s. s \<noteq> [] \<and> upper s \<noteq> ''N/A'') ss)"
  by (induction ss arbitrary: acc) simp_all

lemma name_parts_loop_falsy:
  "\<not> truthy v \<Longrightarrow> name_parts_loop (v # rest) acc = name_parts_loop (JStr [] # rest) acc"
  by simp

lemma name_part_personal:
  assumes "name_part data key = Some s"
  shows "\<exists>personal. dict_get (JDict data) ''personal_info'' (JDict []) = Inr personal \<and>
           (\<exists>kvs. personal = JDict kvs)"
  using assms by (auto simp: name_part_def dict_get_def split: option.splits json.splits)

lemma name_part_get:
  assumes "name_part data key = Some s"
      and "dict_get (JDict data) ''personal_info'' (JDict []) = Inr personal"
  shows "\<exists>v. dict_get personal key (JStr []) = Inr v \<and> (v = JStr s \<or> \<not> truthy v \<and> s = [])"
  using assms
  by (auto simp: name_part_def dict_get_def split: option.splits json.splits if_splits)

text \<open>
  On a record whose \<^verbatim>\<open>personal_info\<close> is absent or a dictionary and whose first, middle and
  last name are each absent, falsy or a string, \<open>extract_full_name\<close> does what the
  specification asks for: it drops the parts that are missing or empty and those equal to
  \<^verbatim>\<open>N/A\<close> in any letter case, and joins the rest with single spaces.
\<close>

lemma full_name_of_name_parts:
  assumes f: "name_part data ''first_name'' = Some f"
      and m: "name_part data ''middle_name'' = Some m"
      and l: "name_part data ''last_name'' = Some l"
  shows "extract_full_name data =
         Inr (join '' '' (filter (\<lambda>s. s \<noteq> [] \<and> s \<notin> {''N/A'', ''N/a'', ''n/A'', ''n/a''}) [f, m, l]))"
proof -
  from name_part_personal [OF f] obtain personal where
    p: "dict_get (JDict data) ''personal_info'' (JDict []) = Inr personal" by blast
  from name_part_get [OF f p] obtain vf where
    vf: "dict_get personal ''first_name'' (JStr []) = Inr vf" "vf = JStr f \<or> \<not> truthy vf \<and> f = []"
    by blast
  from name_part_get [OF m p] obtain vm where
    vm: "dict_get personal ''middle_name'' (JStr []) = Inr vm" "vm = JStr m \<or> \<not> truthy vm \<and> m = []"
    by blast
  from name_part_get [OF l p] obtain vl where
    vl: "dict_get personal ''last_name'' (JStr []) = Inr vl" "vl = JStr l \<or> \<not> truthy vl \<and> l = []"
    by blast
  have "name_parts_loop [vf, vm, vl] [] = name_parts_loop [JStr f, vm, vl] []"
    using vf(2) by (auto simp: name_parts_loop_falsy)
  also have "\<dots> = name_parts_loop [JStr f, JStr m, vl] []"
    using vm(2) by (auto simp: name_parts_loop_falsy)
  also have "\<dots> = name_parts_loop [JStr f, JStr m, JStr l] []"
    using vl(2) by (auto simp: name_parts_loop_falsy)
  also have "\<dots> = Inr (filter (\<lambda>s. s \<noteq> [] \<and> upper s \<noteq> ''N/A'') [f, m, l])"
    using name_parts_loop_strings [of "[f, m, l]" "[]"] by simp
  finally have "name_parts_loop [vf, vm, vl] [] =
      Inr (filter (\<lambda>s. s \<noteq> [] \<and> s \<notin> {''N/A'', ''N/a'', ''n/A'', ''n/a''}) [f, m, l])"
    by (simp only: upper_is_NA)
  with p vf(1) vm(1) vl(1) show ?thesis
    by (simp add: extract_full_name_def)
qed

lemma full_name_of_name_parts_example:
  "name_part [(''personal_info'', JDict [(''first_name'', JStr ''Ali''), (''middle_name'', JStr ''N/A''),
      (''last_name'', JStr ''Haddad'')])] ''first_name'' = Some ''Ali'' \<and>
   name_part [(''personal_info'', JDict [(''first_name'', JStr ''Ali''), (''middle_name'', JStr ''N/A''),
      (''last_name'', JStr ''Haddad'')])] ''middle_name'' = Some ''N/A'' \<and>
   name_part [(''personal_info'', JDict [(''first_name'', JStr ''Ali''), (''middle_name'', JStr ''N/A''),
      (''last_name'', JStr ''Haddad'')])] ''last_name'' = Some ''Haddad'' \<and>
   extract_full_name [(''personal_info'', JDict [(''first_name'', JStr ''Ali''), (''middle_name'', JStr ''N/A''),
      (''last_name'', JStr ''Haddad'')])] = Inr ''Ali Haddad''"
proof -
  let ?data = "[(''personal_info'', JDict [(''first_name'', JStr ''Ali''), (''middle_name'', JStr ''N/A''),
      (''last_name'', JStr ''Haddad'')])]"
  have f: "name_part ?data ''first_name'' = Some ''Ali''"
    by (simp add: name_part_def)
  have m: "name_part ?data ''middle_name'' = Some ''N/A''"
    by (simp add: name_part_def)
  have l: "name_part ?data ''last_name'' = Some ''Haddad''"
    by (simp add: name_part_def)
  from full_name_of_name_parts [OF f m l]
  have r: "extract_full_name ?data = Inr ''Ali Haddad''"
    by simp
  show ?thesis by (intro conjI) (rule f m l r)+
qed

text \<open>
  C6. The claim asks for the missing name parts to be dropped. For a record whose
  \<^verbatim>\<open>personal_info\<close> is \<^verbatim>\<open>null\<close>, where all three parts are missing, \<open>extract_full_name\<close> raises
  \<^verbatim>\<open>AttributeError\<close> instead of returning the empty name; it raises as well for a first name
  that is the number 5, which the text-field loop writes as \<^verbatim>\<open>5\<close>.
\<close>

theorem extract_full_name_null_personal_info:
  "extract_full_name [(''personal_info'', JNull)] = Inl AttributeError \<and>
   extract_full_name [(''personal_info'', JDict [(''first_name'', JInt 5)])] = Inl AttributeError \<and>
   get_nested_value [(''personal_info'', JNull)] ''personal_info.first_name'' = JNull \<and>
   fill_mapped_field FIELD_COORDINATES plain_env [(''personal_info'', JDict [(''first_name'', JInt 5)])] []
     (''personal_info.first_name'', ''first_name'') = Done [Drawn (text_at 67 154 ''5'')]"
  by code_simp

section \<open>The visa type label\<close>





section \<open>The accompaniment text\<close>

lemma prefix_not_blank: "strip (ARABIC_ACCOMPANIED_BY_PREFIX @ name) \<noteq> []"
  by (rule strip_keeps [of "CHR 0xEF"])
     (simp_all add: ARABIC_ACCOMPANIED_BY_PREFIX_def whitespace_def)

lemma coords_accompanied: "map_of FIELD_COORDINATES ''accompanied_by_arabic'' = Some (450, 750)"
  by (simp add: FIELD_COORDINATES_def)

text \<open>
  C7, as amended. For a record whose \<^verbatim>\<open>accompany_name\<close> is a string that is not empty, with
  translation unavailable, the text handed to the Arabic path is the prefix literal
  immediately followed by the untranslated name, at the \<^verbatim>\<open>accompanied_by_arabic\<close> coordinate
  with the bottom-label font size. What is drawn, by the first font of the fallback chain
  whose draw succeeds, is that text after \<open>reshape_arabic_text\<close>: the same text when the
  shaping libraries are not installed, its reshaped display form when they are.
\<close>

theorem accompanied_by_text:
  assumes name: "get_nested_value data ''accompany_name'' = JStr name" and nonempty: "name \<noteq> []"
      and off: "\<not> TRANSLATION_SUPPORT env"
  shows "fill_accompanied_by FIELD_COORDINATES env data page =
           Done (page @ fallback_chain (call_raises env)
                  (map (\<lambda>fc. InsertText 450 750 (reshape_arabic_text env (ARABIC_ACCOMPANIED_BY_PREFIX @ name))
                                fc (BOTTOM_LABEL_FONT_SIZE env) (0, 0, 0)) font_attempts)
                  (InsertText 450 750 (reshape_arabic_text env (ARABIC_ACCOMPANIED_BY_PREFIX @ name))
                     (Builtin ''helv'') (BOTTOM_LABEL_FONT_SIZE env) (0, 0, 0))) \<and>
         (\<not> ARABIC_SUPPORT env \<longrightarrow>
            reshape_arabic_text env (ARABIC_ACCOMPANIED_BY_PREFIX @ name) =
              ARABIC_ACCOMPANIED_BY_PREFIX @ name)"
proof -
  from off have fails: "\<not> TRANSLATION_SUPPORT env \<or> (\<exists>e. translate env name = Inl e)"
    by simp
  have "ARABIC_ACCOMPANIED_BY_PREFIX @ name \<noteq> []"
    using nonempty by simp
  then show ?thesis
    by (simp add: fill_accompanied_by_string [OF name fails] nonempty coords_accompanied
          insert_arabic_text_trace prefix_not_blank arabic_op_def [abs_def] reshape_arabic_text_def)
qed

theorem accompanied_by_text_witness:
  "get_nested_value [(''accompany_name'', JStr ''Mary'')] ''accompany_name'' = JStr ''Mary'' \<and>
   ''Mary'' \<noteq> [] \<and> \<not> TRANSLATION_SUPPORT plain_env \<and> \<not> ARABIC_SUPPORT plain_env \<and>
   fill_accompanied_by FIELD_COORDINATES plain_env [(''accompany_name'', JStr ''Mary'')] [] =
     Done [Drawn (InsertText 450 750 (ARABIC_ACCOMPANIED_BY_PREFIX @ ''Mary'')
                    (FontFile ''/System/Library/Fonts/GeezaPro.ttc'' ''GeezaPro'') 7 (0, 0, 0))]"
proof -
  have name: "get_nested_value [(''accompany_name'', JStr ''Mary'')] ''accompany_name'' = JStr ''Mary''"
    by (simp add: get_nested_value_def)
  have n: "''Mary'' \<noteq> []" by simp
  have off: "\<not> TRANSLATION_SUPPORT plain_env" by (simp add: plain_env_def)
  have plain: "\<not> ARABIC_SUPPORT plain_env" by (simp add: plain_env_def)
  note inst = accompanied_by_text [OF name n off, of "[]"]
  from conjunct1 [OF inst] conjunct2 [OF inst, THEN mp, OF plain]
  have r: "fill_accompanied_by FIELD_COORDINATES plain_env [(''accompany_name'', JStr ''Mary'')] [] =
     Done [Drawn (InsertText 450 750 (ARABIC_ACCOMPANIED_BY_PREFIX @ ''Mary'')
                    (FontFile ''/System/Library/Fonts/GeezaPro.ttc'' ''GeezaPro'') 7 (0, 0, 0))]"
    by (simp add: fallback_chain_def call_raises_def font_attempts_def plain_env_def)
  show ?thesis by (intro conjI) (rule name n off plain r)+
qed

text \<open>
  C7 as stated fails: with the shaping libraries at work the text drawn is the display form,
  not the prefix followed by the name; and when every font attempt raises, nothing is drawn.
\<close>

theorem accompanied_by_counterexample:
  "\<not> TRANSLATION_SUPPORT shaping_env \<and>
   drawn (overlay (fill_text_fields FIELD_COORDINATES shaping_env [] [(''accompany_name'', JStr ''Mary'')])) =
     [InsertText 450 750 (rev (ARABIC_ACCOMPANIED_BY_PREFIX @ ''Mary''))
        (FontFile ''/System/Library/Fonts/GeezaPro.ttc'' ''GeezaPro'') 7 (0, 0, 0)] \<and>
   rev (ARABIC_ACCOMPANIED_BY_PREFIX @ ''Mary'') \<noteq> ARABIC_ACCOMPANIED_BY_PREFIX @ ''Mary'' \<and>
   \<not> TRANSLATION_SUPPORT broken_env \<and>
   drawn (overlay (fill_text_fields FIELD_COORDINATES broken_env [] [(''accompany_name'', JStr ''Mary'')])) = []"
  by code_simp

end
